theory Spec2Isabelle
  imports Complex_Main
begin

section \<open>Python values\<close>

text \<open>
  The tools receive and return JSON-compatible Python values. A number is an \<open>int\<close>
  (unbounded) or a \<open>float\<close>. A float is represented by the exact rational value of a
  finite binary64 number; every float operation computes the exact result and rounds it
  to the nearest binary64 value, ties to even (\<open>fl\<close>). The model covers the normal range
  of binary64: infinities, NaN, subnormal numbers and overflow are outside it.
  Strings are ASCII. An f-string that interpolates numbers is kept as the list of its
  parts (\<open>PFString\<close>): the conversion of a float to text is not modelled.
\<close>

datatype pynum = PyInt int | PyFloat rat

datatype pyval =
    PNone
  | PBool bool
  | PNum pynum
  | PStr string
  | PList "pyval list"
  | PDict "(string \<times> pyval) list"
  | PFString "pyval list"

text \<open>Exceptions carry the text that \<open>str(e)\<close> yields.\<close>

datatype py_exn =
    TypeError string
  | AttributeError string
  | ZeroDivisionError string
  | ValueError string
  | KeyError string
  | OtherError string

fun str_exn :: "py_exn \<Rightarrow> string" where
  "str_exn (TypeError m) = m"
| "str_exn (AttributeError m) = m"
| "str_exn (ZeroDivisionError m) = m"
| "str_exn (ValueError m) = m"
| "str_exn (KeyError m) = m"
| "str_exn (OtherError m) = m"

subsection \<open>Binary64 rounding\<close>

text \<open>The number of binary digits of a positive integer (\<open>int.bit_length\<close>).\<close>

function bit_length :: "int \<Rightarrow> int" where
  "bit_length n = (if n \<le> 0 then 0 else 1 + bit_length (n div 2))"
  by pat_completeness auto
termination
  by (relation "measure nat") auto

declare bit_length.simps [simp del]

definition pow2 :: "int \<Rightarrow> rat" where
  "pow2 k = (if 0 \<le> k then 2 ^ nat k else 1 / 2 ^ nat (- k))"

text \<open>\<open>floor_log2 x\<close> is the exponent \<open>e\<close> with \<open>2^e \<le> x < 2^(e+1)\<close>, for \<open>x > 0\<close>.\<close>

definition floor_log2 :: "rat \<Rightarrow> int" where
  "floor_log2 x =
     (let (a, b) = quotient_of x;
          k = bit_length a - bit_length b
      in if pow2 k \<le> x then k else k - 1)"

definition round_half_even :: "rat \<Rightarrow> int" where
  "round_half_even x =
     (let f = \<lfloor>x\<rfloor>; d = x - of_int f
      in if d < 1 / 2 then f
         else if 1 / 2 < d then f + 1
         else if even f then f else f + 1)"

text \<open>Rounding to 53 significant bits.\<close>

definition fl :: "rat \<Rightarrow> rat" where
  "fl x =
     (if x = 0 then 0
      else let u = pow2 (floor_log2 \<bar>x\<bar> - 52)
           in of_int (round_half_even (x / u)) * u)"

subsection \<open>Arithmetic on numbers\<close>

text \<open>A float literal of the source denotes the binary64 value nearest to it.\<close>

definition float_lit :: "rat \<Rightarrow> pynum" where
  "float_lit x = PyFloat (fl x)"

text \<open>The exact value, as Python's comparisons between ints and floats use it.\<close>

fun num_value :: "pynum \<Rightarrow> rat" where
  "num_value (PyInt i) = of_int i"
| "num_value (PyFloat x) = x"

text \<open>Conversion of an operand to float, when the other operand is a float.\<close>

fun to_float :: "pynum \<Rightarrow> rat" where
  "to_float (PyInt i) = fl (of_int i)"
| "to_float (PyFloat x) = x"

fun num_add :: "pynum \<Rightarrow> pynum \<Rightarrow> pynum" where
  "num_add (PyInt i) (PyInt j) = PyInt (i + j)"
| "num_add a b = PyFloat (fl (to_float a + to_float b))"

fun num_sub :: "pynum \<Rightarrow> pynum \<Rightarrow> pynum" where
  "num_sub (PyInt i) (PyInt j) = PyInt (i - j)"
| "num_sub a b = PyFloat (fl (to_float a - to_float b))"

fun num_mul :: "pynum \<Rightarrow> pynum \<Rightarrow> pynum" where
  "num_mul (PyInt i) (PyInt j) = PyInt (i * j)"
| "num_mul a b = PyFloat (fl (to_float a * to_float b))"

text \<open>
  True division \<open>a / b\<close>: always a float; the quotient of two ints is rounded once, from
  the exact quotient. A zero divisor raises.
\<close>

fun num_truediv :: "pynum \<Rightarrow> pynum \<Rightarrow> py_exn + pynum" where
  "num_truediv (PyInt i) (PyInt j) =
     (if j = 0 then Inl (ZeroDivisionError ''division by zero'')
      else Inr (PyFloat (fl (of_int i / of_int j))))"
| "num_truediv a b =
     (if to_float b = 0 then Inl (ZeroDivisionError ''float division by zero'')
      else Inr (PyFloat (fl (to_float a / to_float b))))"

text \<open>
  \<open>a ** k\<close> for a literal exponent \<open>k \<ge> 0\<close>: exact on ints; on floats the C library's
  \<open>pow\<close>, taken as correctly rounded.
\<close>

fun num_pow :: "pynum \<Rightarrow> nat \<Rightarrow> pynum" where
  "num_pow (PyInt i) k = PyInt (i ^ k)"
| "num_pow (PyFloat x) k = PyFloat (fl (x ^ k))"

definition num_less :: "pynum \<Rightarrow> pynum \<Rightarrow> bool" where
  "num_less a b = (num_value a < num_value b)"

definition num_le :: "pynum \<Rightarrow> pynum \<Rightarrow> bool" where
  "num_le a b = (num_value a \<le> num_value b)"

definition num_eq :: "pynum \<Rightarrow> pynum \<Rightarrow> bool" where
  "num_eq a b = (num_value a = num_value b)"

text \<open>
  \<open>round(x, ndigits)\<close> with \<open>ndigits \<ge> 0\<close>: an int is returned as it is; a float is
  rounded in decimal, half to even, on its exact value, and the decimal result is
  converted back to the nearest float.
\<close>

fun py_round :: "pynum \<Rightarrow> nat \<Rightarrow> pynum" where
  "py_round (PyInt i) n = PyInt i"
| "py_round (PyFloat x) n = PyFloat (fl (of_int (round_half_even (x * 10 ^ n)) / 10 ^ n))"

subsection \<open>Strings and dictionaries\<close>

definition lower_char :: "char \<Rightarrow> char" where
  "lower_char c =
     (let n = (of_char c :: nat)
      in if 65 \<le> n \<and> n \<le> 90 then char_of (n + 32) else c)"

definition lower :: "string \<Rightarrow> string" where
  "lower s = map lower_char s"

text \<open>\<open>d.get(k)\<close> and \<open>d.get(k, default)\<close> on a dictionary kept as an association list.\<close>

definition dict_get :: "(string \<times> 'v) list \<Rightarrow> string \<Rightarrow> 'v option" where
  "dict_get d k = map_of d k"

definition dict_get_default :: "(string \<times> 'v) list \<Rightarrow> string \<Rightarrow> 'v \<Rightarrow> 'v" where
  "dict_get_default d k v = (case map_of d k of None \<Rightarrow> v | Some x \<Rightarrow> x)"

text \<open>Reading a field of a returned dictionary.\<close>

fun field :: "py_exn + pyval \<Rightarrow> string \<Rightarrow> pyval option" where
  "field (Inr (PDict d)) k = map_of d k"
| "field _ k = None"

section \<open>Fitness calculators (tools/fitness\_calc.py)\<close>

definition calculate_bmi :: "pynum \<Rightarrow> pynum \<Rightarrow> py_exn + pyval" where
  "calculate_bmi weight_kg height_cm =
     (case num_truediv height_cm (PyInt 100) of
        Inl e \<Rightarrow> Inl e
      | Inr height_m \<Rightarrow>
          (case num_truediv weight_kg (num_pow height_m 2) of
             Inl e \<Rightarrow> Inl e
           | Inr bmi \<Rightarrow>
               let (category, health_status, recommendation) =
                 (if num_less bmi (float_lit (37 / 2)) then
                    (''Underweight'', ''Below healthy weight range'',
                     ''Consider consulting a nutritionist to develop a healthy weight gain plan with nutrient-dense foods.'')
                  else if num_le (float_lit (37 / 2)) bmi \<and> num_less bmi (PyInt 25) then
                    (''Normal weight'', ''Healthy weight range'',
                     ''Maintain your current weight through balanced nutrition and regular physical activity.'')
                  else if num_le (PyInt 25) bmi \<and> num_less bmi (PyInt 30) then
                    (''Overweight'', ''Above healthy weight range'',
                     ''Consider a balanced diet and regular exercise. Aim for 150+ minutes of moderate activity per week.'')
                  else
                    (''Obese'', ''Significantly above healthy weight range'',
                     ''Consult with healthcare professionals for a comprehensive weight management plan.''))
               in Inr (PDict
                 [(''bmi'', PNum (py_round bmi 1)),
                  (''category'', PStr category),
                  (''health_status'', PStr health_status),
                  (''recommendation'', PStr recommendation),
                  (''weight_kg'', PNum weight_kg),
                  (''height_cm'', PNum height_cm)])))"

definition activity_multipliers :: "(string \<times> pynum) list" where
  "activity_multipliers =
     [(''sedentary'', float_lit (12 / 10)),
      (''light'', float_lit (1375 / 1000)),
      (''moderate'', float_lit (155 / 100)),
      (''active'', float_lit (1725 / 1000)),
      (''very_active'', float_lit (19 / 10))]"

definition calculate_tdee :: "pynum \<Rightarrow> pynum \<Rightarrow> pynum \<Rightarrow> string \<Rightarrow> string \<Rightarrow> py_exn + pyval" where
  "calculate_tdee weight_kg height_cm age gender activity_level =
     (let base = num_sub (num_add (num_mul (PyInt 10) weight_kg)
                                  (num_mul (float_lit (625 / 100)) height_cm))
                         (num_mul (PyInt 5) age);
          bmr = (if lower gender = ''male'' then num_add base (PyInt 5)
                 else num_sub base (PyInt 161));
          multiplier = dict_get_default activity_multipliers (lower activity_level)
                         (float_lit (12 / 10));
          tdee = num_mul bmr multiplier
      in Inr (PDict
        [(''bmr'', PNum (py_round bmr 0)),
         (''tdee'', PNum (py_round tdee 0)),
         (''maintenance_calories'', PNum (py_round tdee 0)),
         (''weight_loss'', PDict
            [(''mild'', PNum (py_round (num_sub tdee (PyInt 250)) 0)),
             (''moderate'', PNum (py_round (num_sub tdee (PyInt 500)) 0)),
             (''aggressive'', PNum (py_round (num_sub tdee (PyInt 750)) 0))]),
         (''weight_gain'', PDict
            [(''lean'', PNum (py_round (num_add tdee (PyInt 200)) 0)),
             (''moderate'', PNum (py_round (num_add tdee (PyInt 350)) 0)),
             (''bulk'', PNum (py_round (num_add tdee (PyInt 500)) 0))]),
         (''activity_level'', PStr activity_level)]))"

text \<open>Sequencing of steps that may raise.\<close>

fun bind_exn :: "py_exn + 'a \<Rightarrow> ('a \<Rightarrow> py_exn + 'b) \<Rightarrow> py_exn + 'b" where
  "bind_exn (Inl e) f = Inl e"
| "bind_exn (Inr v) f = f v"

definition one_rm_zone :: "pynum \<Rightarrow> rat \<Rightarrow> rat \<Rightarrow> pyval" where
  "one_rm_zone one_rm lo hi =
     PFString [PNum (py_round (num_mul one_rm (float_lit lo)) 1), PStr ''-'',
               PNum (py_round (num_mul one_rm (float_lit hi)) 1)]"

definition calculate_one_rep_max :: "pynum \<Rightarrow> pynum \<Rightarrow> py_exn + pyval" where
  "calculate_one_rep_max weight reps =
     bind_exn
       (if num_eq reps (PyInt 1) then Inr weight
        else bind_exn (num_truediv reps (PyInt 30))
               (\<lambda>q. Inr (num_mul weight (num_add (PyInt 1) q))))
       (\<lambda>one_rm. Inr (PDict
          [(''one_rep_max'', PNum (py_round one_rm 1)),
           (''training_zones'', PDict
              [(''strength'', PDict
                  [(''percentage'', PStr ''80-95%''),
                   (''weight_range'', one_rm_zone one_rm (80 / 100) (95 / 100)),
                   (''reps'', PStr ''1-5''),
                   (''purpose'', PStr ''Maximum strength development'')]),
               (''hypertrophy'', PDict
                  [(''percentage'', PStr ''65-85%''),
                   (''weight_range'', one_rm_zone one_rm (65 / 100) (85 / 100)),
                   (''reps'', PStr ''6-12''),
                   (''purpose'', PStr ''Muscle growth'')]),
               (''endurance'', PDict
                  [(''percentage'', PStr ''50-70%''),
                   (''weight_range'', one_rm_zone one_rm (50 / 100) (70 / 100)),
                   (''reps'', PStr ''12-20+''),
                   (''purpose'', PStr ''Muscular endurance'')])])]))"

definition navy_category :: "bool \<Rightarrow> pynum \<Rightarrow> string" where
  "navy_category male body_fat =
     (if male then
        (if num_less body_fat (PyInt 6) then ''Essential fat''
         else if num_le (PyInt 6) body_fat \<and> num_less body_fat (PyInt 14) then ''Athletes''
         else if num_le (PyInt 14) body_fat \<and> num_less body_fat (PyInt 18) then ''Fitness''
         else if num_le (PyInt 18) body_fat \<and> num_less body_fat (PyInt 25) then ''Average''
         else ''Obese'')
      else
        (if num_less body_fat (PyInt 14) then ''Essential fat''
         else if num_le (PyInt 14) body_fat \<and> num_less body_fat (PyInt 21) then ''Athletes''
         else if num_le (PyInt 21) body_fat \<and> num_less body_fat (PyInt 25) then ''Fitness''
         else if num_le (PyInt 25) body_fat \<and> num_less body_fat (PyInt 32) then ''Average''
         else ''Obese''))"

text \<open>
  \<open>495 / (c0 - c1 * girth / 2.54 + c2 * height_cm / 2.54) - 450\<close>, the expression of both
  branches, with the branch's constants and girth.
\<close>

definition navy_formula :: "rat \<Rightarrow> rat \<Rightarrow> rat \<Rightarrow> pynum \<Rightarrow> pynum \<Rightarrow> py_exn + pynum" where
  "navy_formula c0 c1 c2 girth height_cm =
     bind_exn (num_truediv (num_mul (float_lit c1) girth) (float_lit (254 / 100))) (\<lambda>a.
     bind_exn (num_truediv (num_mul (float_lit c2) height_cm) (float_lit (254 / 100))) (\<lambda>b.
     bind_exn (num_truediv (PyInt 495) (num_add (num_sub (float_lit c0) a) b)) (\<lambda>q.
     Inr (num_sub q (PyInt 450)))))"

definition navy_result :: "string \<Rightarrow> pynum \<Rightarrow> py_exn + pyval" where
  "navy_result gender body_fat =
     Inr (PDict
       [(''body_fat_percentage'', PNum (py_round body_fat 1)),
        (''category'', PStr (navy_category (lower gender = ''male'') body_fat)),
        (''gender'', PStr gender)])"

text \<open>\<open>hip_cm\<close> is \<open>None\<close> (also the default) or a number.\<close>

definition calculate_body_fat_navy ::
    "string \<Rightarrow> pynum \<Rightarrow> pynum \<Rightarrow> pynum \<Rightarrow> pynum option \<Rightarrow> py_exn + pyval" where
  "calculate_body_fat_navy gender waist_cm neck_cm height_cm hip_cm =
     (if lower gender = ''male'' then
        bind_exn (navy_formula (10324 / 10000) (19077 / 100000) (15456 / 100000)
                    (num_sub waist_cm neck_cm) height_cm)
          (navy_result gender)
      else
        (case hip_cm of
           None \<Rightarrow> Inr (PDict [(''error'', PStr ''Hip measurement required for females'')])
         | Some hip \<Rightarrow>
             bind_exn (navy_formula (129579 / 100000) (35004 / 100000) (22100 / 100000)
                         (num_sub (num_add waist_cm hip) neck_cm) height_cm)
               (navy_result gender)))"

section \<open>Dynamic operations on values\<close>

fun type_name :: "pyval \<Rightarrow> string" where
  "type_name PNone = ''NoneType''"
| "type_name (PBool b) = ''bool''"
| "type_name (PNum (PyInt i)) = ''int''"
| "type_name (PNum (PyFloat x)) = ''float''"
| "type_name (PStr s) = ''str''"
| "type_name (PList xs) = ''list''"
| "type_name (PDict d) = ''dict''"
| "type_name (PFString ps) = ''str''"

definition quoted :: "string \<Rightarrow> string" where
  "quoted s = [CHR 0x27] @ s @ [CHR 0x27]"

definition no_attribute :: "pyval \<Rightarrow> string \<Rightarrow> py_exn" where
  "no_attribute v a =
     AttributeError (quoted (type_name v) @ '' object has no attribute '' @ quoted a)"



subsection \<open>String methods\<close>

definition upper_char :: "char \<Rightarrow> char" where
  "upper_char c =
     (let n = (of_char c :: nat)
      in if 97 \<le> n \<and> n \<le> 122 then char_of (n - 32) else c)"

definition is_alpha :: "char \<Rightarrow> bool" where
  "is_alpha c =
     (let n = (of_char c :: nat) in (65 \<le> n \<and> n \<le> 90) \<or> (97 \<le> n \<and> n \<le> 122))"

text \<open>The characters \<open>str.strip()\<close> removes: tab to carriage return, the four separators, space.\<close>

definition is_space :: "char \<Rightarrow> bool" where
  "is_space c =
     (let n = (of_char c :: nat) in (9 \<le> n \<and> n \<le> 13) \<or> (28 \<le> n \<and> n \<le> 32))"

definition strip :: "string \<Rightarrow> string" where
  "strip s = rev (dropWhile is_space (rev (dropWhile is_space s)))"

text \<open>\<open>str.title()\<close>: a letter that follows a letter is lowered, any other letter is raised.\<close>

fun title_from :: "bool \<Rightarrow> string \<Rightarrow> string" where
  "title_from prev [] = []"
| "title_from prev (c # cs) =
     (if is_alpha c then (if prev then lower_char c else upper_char c) # title_from True cs
      else c # title_from False cs)"

definition title :: "string \<Rightarrow> string" where
  "title s = title_from False s"

section \<open>Nutrition tools (tools/nutrition\_tools.py)\<close>

definition nutrition_db :: "(string \<times> (string \<times> pynum) list) list" where
  "nutrition_db =
     [(''chicken breast'', [(''calories'', PyInt 165), (''protein'', PyInt 31), (''carbs'', PyInt 0), (''fat'', float_lit (18 / 5))]),
      (''salmon'', [(''calories'', PyInt 208), (''protein'', PyInt 20), (''carbs'', PyInt 0), (''fat'', PyInt 13)]),
      (''egg'', [(''calories'', PyInt 143), (''protein'', PyInt 13), (''carbs'', PyInt 1), (''fat'', PyInt 10)]),
      (''greek yogurt'', [(''calories'', PyInt 59), (''protein'', PyInt 10), (''carbs'', float_lit (18 / 5)), (''fat'', float_lit (2 / 5))]),
      (''oatmeal'', [(''calories'', PyInt 389), (''protein'', PyInt 17), (''carbs'', PyInt 66), (''fat'', PyInt 7)]),
      (''brown rice'', [(''calories'', PyInt 370), (''protein'', float_lit (15 / 2)), (''carbs'', PyInt 77), (''fat'', float_lit (29 / 10))]),
      (''broccoli'', [(''calories'', PyInt 34), (''protein'', float_lit (14 / 5)), (''carbs'', PyInt 7), (''fat'', float_lit (2 / 5))]),
      (''sweet potato'', [(''calories'', PyInt 86), (''protein'', float_lit (8 / 5)), (''carbs'', PyInt 20), (''fat'', float_lit (1 / 10))]),
      (''banana'', [(''calories'', PyInt 89), (''protein'', float_lit (11 / 10)), (''carbs'', PyInt 23), (''fat'', float_lit (3 / 10))]),
      (''almonds'', [(''calories'', PyInt 579), (''protein'', PyInt 21), (''carbs'', PyInt 22), (''fat'', PyInt 50)]),
      (''avocado'', [(''calories'', PyInt 160), (''protein'', PyInt 2), (''carbs'', PyInt 9), (''fat'', PyInt 15)]),
      (''quinoa'', [(''calories'', PyInt 368), (''protein'', PyInt 14), (''carbs'', PyInt 64), (''fat'', PyInt 6)]),
      (''tuna'', [(''calories'', PyInt 130), (''protein'', PyInt 28), (''carbs'', PyInt 0), (''fat'', PyInt 1)]),
      (''beef'', [(''calories'', PyInt 250), (''protein'', PyInt 26), (''carbs'', PyInt 0), (''fat'', PyInt 15)]),
      (''turkey'', [(''calories'', PyInt 135), (''protein'', PyInt 30), (''carbs'', PyInt 0), (''fat'', float_lit (7 / 10))]),
      (''cottage cheese'', [(''calories'', PyInt 98), (''protein'', PyInt 11), (''carbs'', float_lit (17 / 5)), (''fat'', float_lit (43 / 10))]),
      (''milk'', [(''calories'', PyInt 42), (''protein'', float_lit (17 / 5)), (''carbs'', PyInt 5), (''fat'', PyInt 1)]),
      (''apple'', [(''calories'', PyInt 52), (''protein'', float_lit (3 / 10)), (''carbs'', PyInt 14), (''fat'', float_lit (1 / 5))]),
      (''peanut butter'', [(''calories'', PyInt 588), (''protein'', PyInt 25), (''carbs'', PyInt 20), (''fat'', PyInt 50)]),
      (''spinach'', [(''calories'', PyInt 23), (''protein'', float_lit (29 / 10)), (''carbs'', float_lit (18 / 5)), (''fat'', float_lit (2 / 5))]),
      (''pasta'', [(''calories'', PyInt 371), (''protein'', PyInt 13), (''carbs'', PyInt 75), (''fat'', float_lit (3 / 2))]),
      (''bread'', [(''calories'', PyInt 265), (''protein'', PyInt 9), (''carbs'', PyInt 49), (''fat'', float_lit (16 / 5))]),
      (''cheese'', [(''calories'', PyInt 402), (''protein'', PyInt 25), (''carbs'', float_lit (13 / 10)), (''fat'', PyInt 33)])]"

definition get_nutrition_info :: "string \<Rightarrow> pyval" where
  "get_nutrition_info food_item =
     (let food_lower = strip (lower food_item)
      in case map_of nutrition_db food_lower of
           Some nutrition \<Rightarrow>
             PDict [(''food'', PStr (title food_item)),
                    (''serving_size'', PStr ''100g''),
                    (''nutrition'', PDict (map (\<lambda>(k, v). (k, PNum v)) nutrition)),
                    (''found'', PBool True)]
         | None \<Rightarrow>
             PDict [(''food'', PStr food_item),
                    (''found'', PBool False),
                    (''message'', PStr ''Food not found in database. Try a more common food item or check spelling.'')])"


text \<open>\<open>food_data.get("found")\<close> as a condition, and \<open>food_data["nutrition"][k]\<close>.\<close>

fun found :: "pyval \<Rightarrow> bool" where
  "found (PDict d) = (map_of d ''found'' = Some (PBool True))"
| "found v = False"

fun nutrient :: "pyval \<Rightarrow> string \<Rightarrow> py_exn + pynum" where
  "nutrient (PDict d) k =
     (case map_of d ''nutrition'' of
        Some (PDict n) \<Rightarrow>
          (case map_of n k of
             Some (PNum x) \<Rightarrow> Inr x
           | _ \<Rightarrow> Inl (KeyError (quoted k)))
      | _ \<Rightarrow> Inl (KeyError (quoted ''nutrition'')))"
| "nutrient v k = Inl (KeyError (quoted ''nutrition''))"







section \<open>Workout tools (tools/workout\_tools.py)\<close>

text \<open>The exercise database: muscle group, level, then (name, equipment, sets, reps).\<close>

definition exercises :: "(string \<times> (string \<times> (string \<times> string \<times> string \<times> string) list) list) list" where
  "exercises =
     [(''chest'',
        [(''beginner'',
            [(''Push-ups'', ''bodyweight'', ''3'', ''8-12''),
             (''Incline Push-ups'', ''bodyweight'', ''3'', ''10-15''),
             (''Dumbbell Bench Press'', ''dumbbells'', ''3'', ''8-12''),
             (''Dumbbell Flyes'', ''dumbbells'', ''3'', ''10-12'')]),
         (''intermediate'',
            [(''Barbell Bench Press'', ''barbell'', ''4'', ''8-10''),
             (''Incline Dumbbell Press'', ''dumbbells'', ''3'', ''8-12''),
             (''Cable Flyes'', ''cables'', ''3'', ''12-15''),
             (''Dips'', ''bodyweight'', ''3'', ''8-12'')]),
         (''advanced'',
            [(''Barbell Bench Press'', ''barbell'', ''5'', ''5-8''),
             (''Incline Barbell Press'', ''barbell'', ''4'', ''8-10''),
             (''Weighted Dips'', ''bodyweight'', ''4'', ''6-10''),
             (''Cable Crossovers'', ''cables'', ''3'', ''12-15'')])]),
      (''back'',
        [(''beginner'',
            [(''Dumbbell Rows'', ''dumbbells'', ''3'', ''10-12''),
             (''Lat Pulldowns'', ''cables'', ''3'', ''10-12''),
             (''Seated Cable Rows'', ''cables'', ''3'', ''10-12''),
             (''Back Extensions'', ''bodyweight'', ''3'', ''12-15'')]),
         (''intermediate'',
            [(''Pull-ups'', ''bodyweight'', ''4'', ''6-10''),
             (''Barbell Rows'', ''barbell'', ''4'', ''8-10''),
             (''T-Bar Rows'', ''barbell'', ''3'', ''10-12''),
             (''Face Pulls'', ''cables'', ''3'', ''15-20'')]),
         (''advanced'',
            [(''Weighted Pull-ups'', ''bodyweight'', ''4'', ''6-8''),
             (''Deadlifts'', ''barbell'', ''4'', ''5-8''),
             (''Pendlay Rows'', ''barbell'', ''4'', ''6-8''),
             (''Chest Supported Rows'', ''dumbbells'', ''3'', ''10-12'')])]),
      (''legs'',
        [(''beginner'',
            [(''Bodyweight Squats'', ''bodyweight'', ''3'', ''12-15''),
             (''Lunges'', ''bodyweight'', ''3'', ''10-12 each leg''),
             (''Leg Press'', ''machine'', ''3'', ''12-15''),
             (''Leg Curls'', ''machine'', ''3'', ''12-15'')]),
         (''intermediate'',
            [(''Barbell Squats'', ''barbell'', ''4'', ''8-10''),
             (''Romanian Deadlifts'', ''barbell'', ''3'', ''10-12''),
             (''Bulgarian Split Squats'', ''dumbbells'', ''3'', ''10-12 each''),
             (''Leg Extensions'', ''machine'', ''3'', ''12-15'')]),
         (''advanced'',
            [(''Back Squats'', ''barbell'', ''5'', ''5-8''),
             (''Front Squats'', ''barbell'', ''4'', ''6-8''),
             (''Deadlifts'', ''barbell'', ''4'', ''5-8''),
             (''Walking Lunges'', ''dumbbells'', ''4'', ''12 each leg'')])]),
      (''shoulders'',
        [(''beginner'',
            [(''Dumbbell Shoulder Press'', ''dumbbells'', ''3'', ''10-12''),
             (''Lateral Raises'', ''dumbbells'', ''3'', ''12-15''),
             (''Front Raises'', ''dumbbells'', ''3'', ''12-15''),
             (''Face Pulls'', ''cables'', ''3'', ''15-20'')]),
         (''intermediate'',
            [(''Overhead Press'', ''barbell'', ''4'', ''8-10''),
             (''Arnold Press'', ''dumbbells'', ''3'', ''10-12''),
             (''Lateral Raises'', ''dumbbells'', ''4'', ''12-15''),
             (''Reverse Flyes'', ''dumbbells'', ''3'', ''12-15'')]),
         (''advanced'',
            [(''Push Press'', ''barbell'', ''4'', ''6-8''),
             (''Seated Dumbbell Press'', ''dumbbells'', ''4'', ''8-10''),
             (''Cable Lateral Raises'', ''cables'', ''4'', ''15-20''),
             (''Upright Rows'', ''barbell'', ''3'', ''10-12'')])]),
      (''arms'',
        [(''beginner'',
            [(''Dumbbell Bicep Curls'', ''dumbbells'', ''3'', ''10-12''),
             (''Tricep Dips'', ''bodyweight'', ''3'', ''8-12''),
             (''Hammer Curls'', ''dumbbells'', ''3'', ''10-12''),
             (''Tricep Extensions'', ''dumbbells'', ''3'', ''10-12'')]),
         (''intermediate'',
            [(''Barbell Curls'', ''barbell'', ''4'', ''8-10''),
             (''Close-Grip Bench Press'', ''barbell'', ''4'', ''8-10''),
             (''Preacher Curls'', ''dumbbells'', ''3'', ''10-12''),
             (''Skull Crushers'', ''barbell'', ''3'', ''10-12'')]),
         (''advanced'',
            [(''Weighted Chin-ups'', ''bodyweight'', ''4'', ''6-8''),
             (''Close-Grip Bench Press'', ''barbell'', ''5'', ''6-8''),
             (''Cable Curls'', ''cables'', ''4'', ''12-15''),
             (''Overhead Tricep Extension'', ''dumbbells'', ''4'', ''10-12'')])]),
      (''core'',
        [(''beginner'',
            [(''Plank'', ''bodyweight'', ''3'', ''30-60 seconds''),
             (''Crunches'', ''bodyweight'', ''3'', ''15-20''),
             (''Bicycle Crunches'', ''bodyweight'', ''3'', ''15-20''),
             (''Dead Bug'', ''bodyweight'', ''3'', ''10-12 each side'')]),
         (''intermediate'',
            [(''Hanging Knee Raises'', ''bodyweight'', ''3'', ''12-15''),
             (''Russian Twists'', ''bodyweight'', ''3'', ''20-30''),
             (''Mountain Climbers'', ''bodyweight'', ''3'', ''20-30''),
             (''Cable Crunches'', ''cables'', ''3'', ''15-20'')]),
         (''advanced'',
            [(''Hanging Leg Raises'', ''bodyweight'', ''4'', ''12-15''),
             (''Ab Wheel Rollouts'', ''ab_wheel'', ''4'', ''10-12''),
             (''Dragon Flags'', ''bodyweight'', ''3'', ''6-10''),
             (''Pallof Press'', ''cables'', ''3'', ''12-15 each side'')])])]"

fun exercise_dict :: "string \<times> string \<times> string \<times> string \<Rightarrow> pyval" where
  "exercise_dict (name, equipment, sets, reps) =
     PDict [(''name'', PStr name), (''equipment'', PStr equipment),
            (''sets'', PStr sets), (''reps'', PStr reps)]"

definition get_exercise_recommendations :: "string \<Rightarrow> string list \<Rightarrow> string \<Rightarrow> pyval" where
  "get_exercise_recommendations muscle_group equipment level =
     (let muscle_exercises =
            dict_get_default (dict_get_default exercises (lower muscle_group) []) level [];
          muscle_exercises =
            (if equipment \<noteq> [] \<and> equipment \<noteq> [''all''] then
               let available_equipment = map lower equipment @ [''bodyweight'']
               in filter (\<lambda>(name, eq, sets, reps). lower eq \<in> set available_equipment)
                    muscle_exercises
             else muscle_exercises)
      in PDict [(''muscle_group'', PStr muscle_group),
                (''level'', PStr level),
                (''exercises'', PList (map exercise_dict muscle_exercises)),
                (''equipment_available'', PList (map PStr equipment))])"

section \<open>Tool registry (tools/tool\_registry.py)\<close>

text \<open>
  A Python function as the dispatcher sees it: its name, its parameters in order, each
  with its default value if it has one, and its body applied to the bound parameters.
\<close>

type_synonym py_body = "(string \<times> pyval) list \<Rightarrow> py_exn + pyval"

record pyfunc =
  func_name :: string
  params :: "(string \<times> pyval option) list"
  body :: py_body

definition required :: "pyfunc \<Rightarrow> string list" where
  "required f = map fst (filter (\<lambda>(p, d). d = None) (params f))"

definition digit_char :: "nat \<Rightarrow> char" where
  "digit_char d = char_of (48 + d)"

function str_nat :: "nat \<Rightarrow> string" where
  "str_nat n = (if n < 10 then [digit_char n] else str_nat (n div 10) @ [digit_char (n mod 10)])"
  by pat_completeness auto
termination
  by (relation "measure id") auto

declare str_nat.simps [simp del]

text \<open>The list of missing parameter names in the interpreter's message.\<close>

fun comma_join :: "string list \<Rightarrow> string" where
  "comma_join [] = []"
| "comma_join [a] = a"
| "comma_join (a # b # cs) = a @ '', '' @ comma_join (b # cs)"

definition format_missing :: "string list \<Rightarrow> string" where
  "format_missing names =
     (case map quoted names of
        [] \<Rightarrow> []
      | [a] \<Rightarrow> a
      | [a, b] \<Rightarrow> a @ '' and '' @ b
      | qs \<Rightarrow> comma_join (butlast qs) @ '', and '' @ last qs)"

text \<open>
  The call \<open>func(**arguments)\<close>. The interpreter rejects, in this order, an argument
  that is not a mapping, a key that is not a parameter, and a missing parameter
  without default; otherwise the body runs on the bound parameters.
\<close>

definition bind_params :: "pyfunc \<Rightarrow> (string \<times> pyval) list \<Rightarrow> (string \<times> pyval) list" where
  "bind_params f kw =
     map (\<lambda>(p, d). (p, case map_of kw p of
                          Some v \<Rightarrow> v
                        | None \<Rightarrow> (case d of Some v \<Rightarrow> v | None \<Rightarrow> PNone)))
         (params f)"

definition call_kwargs :: "pyfunc \<Rightarrow> pyval \<Rightarrow> py_exn + pyval" where
  "call_kwargs f arguments =
     (case arguments of
        PDict kw \<Rightarrow>
          (case filter (\<lambda>k. k \<notin> set (map fst (params f))) (map fst kw) of
             k # ks \<Rightarrow>
               Inl (TypeError (func_name f @ ''() got an unexpected keyword argument ''
                               @ quoted k))
           | [] \<Rightarrow>
               (let missing = filter (\<lambda>p. map_of kw p = None) (required f)
                in if missing = [] then body f (bind_params f kw)
                   else Inl (TypeError
                          (func_name f @ ''() missing '' @ str_nat (length missing)
                           @ '' required positional argument''
                           @ (if length missing = 1 then [] else ''s'')
                           @ '': '' @ format_missing missing))))
      | v \<Rightarrow>
          Inl (TypeError (func_name f @ ''() argument after ** must be a mapping, not ''
                          @ type_name v)))"

subsection \<open>The bodies\<close>

text \<open>
  The bodies of the functions modelled above are given in full, on arguments of the
  types their signatures declare. What Python does on arguments of other types, and
  the bodies of the remaining functions, are the parameter \<open>dyn\<close> (function name to
  body): every result below holds for whatever they do.
\<close>

fun as_str :: "pyval option \<Rightarrow> string option" where
  "as_str (Some (PStr s)) = Some s"
| "as_str v = None"

fun as_num :: "pyval option \<Rightarrow> pynum option" where
  "as_num (Some (PNum n)) = Some n"
| "as_num v = None"

fun as_opt_num :: "pyval option \<Rightarrow> pynum option option" where
  "as_opt_num (Some PNone) = Some None"
| "as_opt_num (Some (PNum n)) = Some (Some n)"
| "as_opt_num v = None"

fun as_str_list :: "pyval option \<Rightarrow> string list option" where
  "as_str_list (Some (PList [])) = Some []"
| "as_str_list (Some (PList (PStr s # vs))) = map_option ((#) s) (as_str_list (Some (PList vs)))"
| "as_str_list v = None"

definition calculate_bmi_body :: "(string \<Rightarrow> py_body) \<Rightarrow> py_body" where
  "calculate_bmi_body dyn kw =
     (case (as_num (map_of kw ''weight_kg''), as_num (map_of kw ''height_cm'')) of
        (Some weight_kg, Some height_cm) \<Rightarrow> calculate_bmi weight_kg height_cm
      | _ \<Rightarrow> dyn ''calculate_bmi'' kw)"

definition calculate_tdee_body :: "(string \<Rightarrow> py_body) \<Rightarrow> py_body" where
  "calculate_tdee_body dyn kw =
     (case (as_num (map_of kw ''weight_kg''), as_num (map_of kw ''height_cm''),
            as_num (map_of kw ''age''), as_str (map_of kw ''gender''),
            as_str (map_of kw ''activity_level'')) of
        (Some weight_kg, Some height_cm, Some age, Some gender, Some activity_level) \<Rightarrow>
          calculate_tdee weight_kg height_cm age gender activity_level
      | _ \<Rightarrow> dyn ''calculate_tdee'' kw)"

definition calculate_one_rep_max_body :: "(string \<Rightarrow> py_body) \<Rightarrow> py_body" where
  "calculate_one_rep_max_body dyn kw =
     (case (as_num (map_of kw ''weight''), as_num (map_of kw ''reps'')) of
        (Some weight, Some reps) \<Rightarrow> calculate_one_rep_max weight reps
      | _ \<Rightarrow> dyn ''calculate_one_rep_max'' kw)"

definition get_nutrition_info_body :: "(string \<Rightarrow> py_body) \<Rightarrow> py_body" where
  "get_nutrition_info_body dyn kw =
     (case as_str (map_of kw ''food_item'') of
        Some food_item \<Rightarrow> Inr (get_nutrition_info food_item)
      | None \<Rightarrow> dyn ''get_nutrition_info'' kw)"

definition calculate_body_fat_navy_body :: "(string \<Rightarrow> py_body) \<Rightarrow> py_body" where
  "calculate_body_fat_navy_body dyn kw =
     (case (as_str (map_of kw ''gender''), as_num (map_of kw ''waist_cm''),
            as_num (map_of kw ''neck_cm''), as_num (map_of kw ''height_cm''),
            as_opt_num (map_of kw ''hip_cm'')) of
        (Some gender, Some waist_cm, Some neck_cm, Some height_cm, Some hip_cm) \<Rightarrow>
          calculate_body_fat_navy gender waist_cm neck_cm height_cm hip_cm
      | _ \<Rightarrow> dyn ''calculate_body_fat_navy'' kw)"

definition get_exercise_recommendations_body :: "(string \<Rightarrow> py_body) \<Rightarrow> py_body" where
  "get_exercise_recommendations_body dyn kw =
     (case (as_str (map_of kw ''muscle_group''), as_str_list (map_of kw ''equipment''),
            as_str (map_of kw ''level'')) of
        (Some muscle_group, Some equipment, Some level) \<Rightarrow>
          Inr (get_exercise_recommendations muscle_group equipment level)
      | _ \<Rightarrow> dyn ''get_exercise_recommendations'' kw)"

definition py_function :: "string \<Rightarrow> (string \<times> pyval option) list \<Rightarrow> py_body \<Rightarrow> string \<times> pyfunc" where
  "py_function name ps b = (name, \<lparr>func_name = name, params = ps, body = b\<rparr>)"

definition FUNCTION_MAP :: "(string \<Rightarrow> py_body) \<Rightarrow> (string \<times> pyfunc) list" where
  "FUNCTION_MAP dyn =
     [py_function ''calculate_bmi''
        [(''weight_kg'', None), (''height_cm'', None)]
        (calculate_bmi_body dyn),
      py_function ''calculate_tdee''
        [(''weight_kg'', None), (''height_cm'', None), (''age'', None), (''gender'', None),
         (''activity_level'', None)]
        (calculate_tdee_body dyn),
      py_function ''calculate_macros''
        [(''calories'', None), (''goal'', None), (''weight_kg'', None)]
        (dyn ''calculate_macros''),
      py_function ''calculate_one_rep_max''
        [(''weight'', None), (''reps'', None)]
        (calculate_one_rep_max_body dyn),
      py_function ''calculate_body_fat_navy''
        [(''gender'', None), (''waist_cm'', None), (''neck_cm'', None), (''height_cm'', None),
         (''hip_cm'', Some PNone)]
        (calculate_body_fat_navy_body dyn),
      py_function ''calculate_heart_rate_zones''
        [(''age'', None)]
        (dyn ''calculate_heart_rate_zones''),
      py_function ''calculate_hydration''
        [(''weight_kg'', None), (''activity_level'', Some (PStr ''moderate''))]
        (dyn ''calculate_hydration''),
      py_function ''generate_workout''
        [(''goal'', None), (''level'', None), (''days_per_week'', None), (''equipment'', None),
         (''duration_minutes'', Some (PNum (PyInt 60)))]
        (dyn ''generate_workout''),
      py_function ''get_exercise_recommendations''
        [(''muscle_group'', None), (''equipment'', None),
         (''level'', Some (PStr ''intermediate''))]
        (get_exercise_recommendations_body dyn),
      py_function ''calculate_progressive_overload''
        [(''current_weight'', None), (''current_reps'', None), (''target_reps'', None),
         (''progression_type'', Some (PStr ''weight''))]
        (dyn ''calculate_progressive_overload''),
      py_function ''generate_meal_plan''
        [(''calories'', None), (''protein_g'', None), (''carbs_g'', None), (''fat_g'', None),
         (''meals_per_day'', Some (PNum (PyInt 3))),
         (''dietary_preference'', Some (PStr ''balanced''))]
        (dyn ''generate_meal_plan''),
      py_function ''get_nutrition_info''
        [(''food_item'', None)]
        (get_nutrition_info_body dyn),
      py_function ''get_healthy_alternatives''
        [(''food_item'', None)]
        (dyn ''get_healthy_alternatives'')]"

text \<open>The \<open>required\<close> lists of the catalogue \<open>TOOLS\<close>, by tool name.\<close>

definition TOOLS_required :: "(string \<times> string list) list" where
  "TOOLS_required =
     [(''calculate_bmi'', [''weight_kg'', ''height_cm'']),
      (''calculate_tdee'', [''weight_kg'', ''height_cm'', ''age'', ''gender'', ''activity_level'']),
      (''calculate_macros'', [''calories'', ''goal'', ''weight_kg'']),
      (''calculate_one_rep_max'', [''weight'', ''reps'']),
      (''calculate_body_fat_navy'', [''gender'', ''waist_cm'', ''neck_cm'', ''height_cm'']),
      (''calculate_heart_rate_zones'', [''age'']),
      (''calculate_hydration'', [''weight_kg'']),
      (''generate_workout'', [''goal'', ''level'', ''days_per_week'', ''equipment'']),
      (''get_exercise_recommendations'', [''muscle_group'', ''equipment'', ''level'']),
      (''calculate_progressive_overload'', [''current_weight'', ''current_reps'', ''target_reps'']),
      (''generate_meal_plan'', [''calories'', ''protein_g'', ''carbs_g'', ''fat_g'']),
      (''get_nutrition_info'', [''food_item'']),
      (''get_healthy_alternatives'', [''food_item''])]"

definition error_dict :: "string \<Rightarrow> pyval" where
  "error_dict m = PDict [(''error'', PStr m)]"

definition execute_function :: "(string \<Rightarrow> py_body) \<Rightarrow> string \<Rightarrow> pyval \<Rightarrow> pyval" where
  "execute_function dyn function_name arguments =
     (case map_of (FUNCTION_MAP dyn) function_name of
        Some func \<Rightarrow>
          (case call_kwargs func arguments of
             Inr v \<Rightarrow> v
           | Inl e \<Rightarrow> error_dict (''Function execution failed: '' @ str_exn e))
      | None \<Rightarrow> error_dict (''Function '' @ quoted function_name @ '' not found''))"

text \<open>For closed examples: a \<open>dyn\<close> that raises everywhere.\<close>

definition no_dyn :: "string \<Rightarrow> py_body" where
  "no_dyn name kw = Inl (OtherError ''not modelled'')"

section \<open>The chat application (chainlit\_app.py)\<close>

definition SYSTEM_PROMPT :: string where
  "SYSTEM_PROMPT = concat (map (\<lambda>l. l @ [CHR 0x0A])
     [''You are Elicia, an expert health and fitness AI coach with deep knowledge in:'',
      '''',
      ''- Exercise science and workout programming'',
      ''- Nutrition and meal planning'',
      ''- Body composition and metabolic calculations'',
      ''- Strength training and progressive overload'',
      ''- Cardiovascular fitness and endurance training'',
      ''- Injury prevention and proper form'',
      '''',
      ''You have access to specialized tools for:'',
      ''- Calculating BMI, TDEE, macros, body fat percentage, heart rate zones'',
      ''- Generating personalized workout plans'',
      ''- Creating meal plans and providing nutrition information'',
      ''- Analyzing exercises and progressive overload strategies'',
      '''',
      ''**Important Guidelines:**'',
      ''1. Always prioritize safety and encourage proper form'',
      ''2. Recommend consulting healthcare professionals for medical concerns'',
      ''3. Provide evidence-based advice'',
      ''4. Be motivating and supportive'',
      ''5. Ask clarifying questions when needed (age, weight, height, goals, etc.)'',
      ''6. Use the available tools whenever calculations or structured plans are needed'',
      '''',
      ''**Disclaimer:** You are not a replacement for medical professionals. Always advise users to consult with doctors, especially before starting new exercise or diet programs.'',
      '''',
      ''Be friendly, encouraging, and knowledgeable. Help users achieve their health and fitness goals!''])"

text \<open>
  A tool call of the model: \<open>tool_call.id\<close>, \<open>tool_call.function.name\<close> and
  \<open>tool_call.function.arguments\<close>, the latter as JSON text. The model's reply with its
  \<open>content\<close> and \<open>tool_calls\<close> (the empty list also stands for \<open>None\<close>: the source only
  tests \<open>if tool_calls\<close>).
\<close>

record tool_call =
  tc_id :: string
  tc_name :: string
  tc_arguments :: string

record response_message =
  rm_content :: "string option"
  rm_tool_calls :: "tool_call list"

text \<open>
  The entries of the \<open>messages\<close> list: the four dictionaries the source builds, by role,
  and the reply object of the model, which the source appends as it is.
\<close>

datatype message =
    SystemMessage string
  | UserMessage string
  | AssistantMessage "string option"
  | ResponseMessage response_message
  | ToolMessage string string string

fun is_system :: "message \<Rightarrow> bool" where
  "is_system (SystemMessage c) = True"
| "is_system m = False"

text \<open>
  What the user sees: the welcome message of \<open>start\<close>, the reply message of a turn with
  the text streamed into it, and the error message of the exception handler.
\<close>

datatype ui_message = Welcome | Reply string | ErrorMessage string

text \<open>
  The session's state. \<open>cl.user_session\<close> maps a key to a reference; the list object
  that holds the messages lives in \<open>heap\<close>, so a list read from the session and the
  list stored in it are the same object.
\<close>

record world =
  heap :: "nat \<Rightarrow> message list"
  next_ref :: nat
  user_session :: "string \<Rightarrow> nat option"
  ui :: "ui_message list"

definition ConversationState :: "world \<Rightarrow> message list option" where
  "ConversationState w = map_option (heap w) (user_session w ''messages'')"

definition list_append :: "nat \<Rightarrow> message \<Rightarrow> world \<Rightarrow> world" where
  "list_append r m w = w\<lparr>heap := (heap w)(r := heap w r @ [m])\<rparr>"

definition session_set :: "string \<Rightarrow> nat \<Rightarrow> world \<Rightarrow> world" where
  "session_set k r w = w\<lparr>user_session := (user_session w)(k \<mapsto> r)\<rparr>"

definition start :: "world \<Rightarrow> world" where
  "start w =
     (let r = next_ref w;
          w1 = w\<lparr>heap := (heap w)(r := [SystemMessage SYSTEM_PROMPT]), next_ref := Suc r\<rparr>;
          w2 = session_set ''messages'' r w1
      in w2\<lparr>ui := ui w2 @ [Welcome]\<rparr>)"

text \<open>
  The collaborators of a turn. \<open>create\<close> is the first request (tools enabled) and yields
  the reply or raises; \<open>create_stream\<close> is the second request (streamed) and yields the
  \<open>delta.content\<close> of the chunks received and, if the stream breaks after them, the
  exception. Both see the messages sent. \<open>json_loads\<close> and \<open>json_dumps\<close> are the library's;
  \<open>tool_bodies\<close> is the registry's parameter \<open>dyn\<close>.
\<close>

record env =
  create :: "message list \<Rightarrow> py_exn + response_message"
  create_stream :: "message list \<Rightarrow> py_exn + (string option list \<times> py_exn option)"
  json_loads :: "string \<Rightarrow> py_exn + pyval"
  json_dumps :: "pyval \<Rightarrow> string"
  tool_bodies :: "string \<Rightarrow> py_body"

text \<open>\<open>msg.stream_token(token)\<close> on the reply's text; an absent or empty token adds nothing.\<close>

fun stream_token :: "string \<Rightarrow> string option \<Rightarrow> string" where
  "stream_token msg None = msg"
| "stream_token msg (Some token) = msg @ token"

definition tool_banner :: "string \<Rightarrow> string" where
  "tool_banner function_name =
     [CHR 0x0A, CHR 0x0A, CHR 0xF0, CHR 0x9F, CHR 0x94, CHR 0xA7] @ '' Using tool: **''
     @ function_name @ ''**'' @ [CHR 0x0A, CHR 0x0A]"

definition error_text :: "py_exn \<Rightarrow> string" where
  "error_text e = [CHR 0xE2, CHR 0x9D, CHR 0x8C] @ '' Error: '' @ str_exn e"

definition tool_message :: "env \<Rightarrow> tool_call \<Rightarrow> pyval \<Rightarrow> message" where
  "tool_message ev tc function_args =
     ToolMessage (tc_id tc) (tc_name tc)
       (json_dumps ev (execute_function (tool_bodies ev) (tc_name tc) function_args))"

text \<open>
  The loop over the tool calls. The result is the exception that ended it, if any, with
  the state and the reply text reached.
\<close>

fun run_tools :: "env \<Rightarrow> nat \<Rightarrow> tool_call list \<Rightarrow> world \<Rightarrow> string \<Rightarrow> py_exn option \<times> world \<times> string" where
  "run_tools ev r [] w msg = (None, w, msg)"
| "run_tools ev r (tc # tcs) w msg =
     (case json_loads ev (tc_arguments tc) of
        Inl e \<Rightarrow> (Some e, w, msg)
      | Inr function_args \<Rightarrow>
          run_tools ev r tcs
            (list_append r (tool_message ev tc function_args) w)
            (stream_token msg (Some (tool_banner (tc_name tc)))))"

text \<open>The loop over the chunks of the streamed reply.\<close>

fun stream_chunks :: "string \<Rightarrow> string option list \<Rightarrow> string" where
  "stream_chunks msg [] = msg"
| "stream_chunks msg (c # cs) =
     stream_chunks (if c \<noteq> None \<and> c \<noteq> Some [] then stream_token msg c else msg) cs"

text \<open>The body of the \<open>try\<close> block, on the list object \<open>r\<close>.\<close>

definition try_block :: "env \<Rightarrow> nat \<Rightarrow> world \<Rightarrow> py_exn option \<times> world \<times> string" where
  "try_block ev r w =
     (case create ev (heap w r) of
        Inl e \<Rightarrow> (Some e, w, [])
      | Inr response_message \<Rightarrow>
          if rm_tool_calls response_message \<noteq> [] then
            (case run_tools ev r (rm_tool_calls response_message)
                    (list_append r (ResponseMessage response_message) w) [] of
               (Some e, w2, msg) \<Rightarrow> (Some e, w2, msg)
             | (None, w2, msg) \<Rightarrow>
                 (case create_stream ev (heap w2 r) of
                    Inl e \<Rightarrow> (Some e, w2, msg)
                  | Inr (chunks, failure) \<Rightarrow>
                      (let final_content = stream_chunks msg chunks
                       in case failure of
                            Some e \<Rightarrow> (Some e, w2, final_content)
                          | None \<Rightarrow>
                              (None,
                               session_set ''messages'' r
                                 (list_append r (AssistantMessage (Some final_content)) w2),
                               final_content))))
          else
            (None,
             session_set ''messages'' r
               (list_append r (AssistantMessage (rm_content response_message)) w),
             stream_token [] (rm_content response_message)))"

text \<open>
  The handler of a user message. Without a \<open>messages\<close> entry in the session the append
  before the \<open>try\<close> block raises; otherwise the handler returns, after the reply or after
  the error message.
\<close>

definition main :: "env \<Rightarrow> string \<Rightarrow> world \<Rightarrow> py_exn + world" where
  "main ev text w =
     (case user_session w ''messages'' of
        None \<Rightarrow> Inl (no_attribute PNone ''append'')
      | Some r \<Rightarrow>
          (case try_block ev r (list_append r (UserMessage text) w) of
             (None, w', msg) \<Rightarrow> Inr (w'\<lparr>ui := ui w' @ [Reply msg]\<rparr>)
           | (Some e, w', msg) \<Rightarrow>
               Inr (w'\<lparr>ui := ui w' @ [Reply msg, ErrorMessage (error_text e)]\<rparr>)))"

text \<open>A sequence of turns, each with its collaborators and the user's text.\<close>

fun turns :: "(env \<times> string) list \<Rightarrow> world \<Rightarrow> py_exn + world" where
  "turns [] w = Inr w"
| "turns ((ev, text) # rest) w = bind_exn (main ev text w) (turns rest)"

section \<open>Vocabulary of the properties and example inputs\<close>




text \<open>The \<open>tool_call_id\<close> of a tool message.\<close>

fun tool_call_id :: "message \<Rightarrow> string option" where
  "tool_call_id (ToolMessage i n c) = Some i"
| "tool_call_id m = None"

text \<open>A session before \<open>start\<close>.\<close>

definition empty_world :: world where
  "empty_world = \<lparr>heap = (\<lambda>r. []), next_ref = 0, user_session = (\<lambda>k. None), ui = []\<rparr>"

text \<open>
  Example collaborators: the model asks for two tools; the first request fails with
  \<open>failure1\<close> if given, the stream of the second breaks with \<open>failure2\<close> if given.
\<close>

definition example_calls :: "tool_call list" where
  "example_calls =
     [\<lparr>tc_id = ''call_1'', tc_name = ''calculate_bmi'', tc_arguments = ''{}''\<rparr>,
      \<lparr>tc_id = ''call_2'', tc_name = ''calculate_tdee'', tc_arguments = ''{}''\<rparr>]"

definition example_reply :: response_message where
  "example_reply = \<lparr>rm_content = None, rm_tool_calls = example_calls\<rparr>"

definition example_env :: "py_exn option \<Rightarrow> py_exn option \<Rightarrow> env" where
  "example_env failure1 failure2 =
     \<lparr>create = (\<lambda>ms. case failure1 of Some e \<Rightarrow> Inl e | None \<Rightarrow> Inr example_reply),
      create_stream = (\<lambda>ms. Inr ([Some ''Your BMI'', None, Some '' is 24.7''], failure2)),
      json_loads = (\<lambda>s. Inr (PDict [])),
      json_dumps = type_name,
      tool_bodies = no_dyn\<rparr>"

text \<open>The conversation state after a handler has returned.\<close>

definition state_after :: "py_exn + world \<Rightarrow> message list option" where
  "state_after res = (case res of Inr w \<Rightarrow> ConversationState w | Inl e \<Rightarrow> None)"

text \<open>
  A message list that begins with the system prompt and holds no other system message.
\<close>

definition system_first :: "message list \<Rightarrow> bool" where
  "system_first ms =
     (case ms of
        [] \<Rightarrow> False
      | m # rest \<Rightarrow> m = SystemMessage SYSTEM_PROMPT \<and> list_all (\<lambda>m. \<not> is_system m) rest)"

section \<open>Properties of the calculators\<close>

text \<open>
  C7: \<open>calculate_tdee(weight_kg=80, height_cm=180, age=30, gender="male",
  activity_level="moderate")\<close> returns \<open>bmr\<close> 1780 and \<open>tdee\<close> 2759 (the floats 1780.0
  and 2759.0): the basal rate \<open>10*80 + 6.25*180 - 5*30 + 5\<close>, and that rate times the
  multiplier 1.55 found for \<open>moderate\<close>, each rounded to 0 decimal places.
\<close>

theorem calculate_tdee_scenario:
  "field (calculate_tdee (PyInt 80) (PyInt 180) (PyInt 30) ''male'' ''moderate'') ''bmr''
     = Some (PNum (PyFloat 1780))
   \<and> field (calculate_tdee (PyInt 80) (PyInt 180) (PyInt 30) ''male'' ''moderate'') ''tdee''
     = Some (PNum (PyFloat 2759))
   \<and> dict_get_default activity_multipliers (lower ''moderate'') (float_lit (12 / 10))
     = float_lit (155 / 100)"
  by (intro conjI; code_simp)

text \<open>
  C8: \<open>calculate_bmi(weight_kg=80, height_cm=180)\<close> returns \<open>bmi\<close> 24.7 (the float nearest
  to 24.7) and the category \<open>Normal weight\<close>.
\<close>

theorem calculate_bmi_scenario:
  "field (calculate_bmi (PyInt 80) (PyInt 180)) ''bmi'' = Some (PNum (float_lit (247 / 10)))
   \<and> field (calculate_bmi (PyInt 80) (PyInt 180)) ''category'' = Some (PStr ''Normal weight'')"
  by (intro conjI; code_simp)
























section \<open>Properties of the dispatcher\<close>

text \<open>
  \<open>execute_function\<close> is a total function into values: an exception of the call
  \<open>func(**arguments)\<close> is a value \<open>Inl e\<close> of the model and becomes an error dictionary,
  as the \<open>except Exception\<close> clause makes it.
\<close>

lemma FUNCTION_MAP_name:
  "map_of (FUNCTION_MAP dyn) name = Some f \<Longrightarrow> func_name f = name"
  by (auto simp: FUNCTION_MAP_def py_function_def split: if_splits)

lemma call_kwargs_missing:
  assumes "p \<in> set (required f)" and "map_of kw p = None"
  shows "\<exists>cause. call_kwargs f (PDict kw) = Inl (TypeError (func_name f @ ''()'' @ cause))"
proof (cases "filter (\<lambda>k. k \<notin> set (map fst (params f))) (map fst kw)")
  case Nil
  from assms have "filter (\<lambda>p. map_of kw p = None) (required f) \<noteq> []"
    by (auto simp: filter_empty_conv)
  with Nil show ?thesis
    by (simp add: call_kwargs_def Let_def)
next
  case (Cons k ks)
  then show ?thesis
    by (simp add: call_kwargs_def)
qed

lemma execute_function_registered:
  assumes "map_of (FUNCTION_MAP dyn) name = Some f"
    and "p \<in> set (required f)" and "map_of kw p = None"
  shows "\<exists>cause. execute_function dyn name (PDict kw)
           = error_dict (''Function execution failed: '' @ name @ ''()'' @ cause)"
proof -
  from call_kwargs_missing[OF assms(2,3)] obtain cause
    where "call_kwargs f (PDict kw) = Inl (TypeError (func_name f @ ''()'' @ cause))"
    by blast
  with assms(1) FUNCTION_MAP_name[OF assms(1)]
  have "execute_function dyn name (PDict kw)
          = error_dict (''Function execution failed: '' @ name @ ''()'' @ cause)"
    by (simp add: execute_function_def)
  then show ?thesis by (rule exI)
qed

text \<open>
  C4: for a name that is not a key of \<open>FUNCTION_MAP\<close> and any arguments, the dispatcher
  returns the error dictionary \<open>{"error": "Function '<name>' not found"}\<close>, which carries
  the attempted name; it does not raise.
\<close>

theorem execute_function_not_found:
  "map_of (FUNCTION_MAP dyn) function_name = None \<Longrightarrow>
   execute_function dyn function_name arguments
     = PDict [(''error'', PStr (''Function '' @ quoted function_name @ '' not found''))]"
  by (simp add: execute_function_def error_dict_def)

lemma unknown_tool_unregistered: "map_of (FUNCTION_MAP no_dyn) ''unknown_tool'' = None"
  by (simp add: FUNCTION_MAP_def py_function_def)

theorem execute_function_not_found_witness:
  "map_of (FUNCTION_MAP no_dyn) ''unknown_tool'' = None
   \<and> execute_function no_dyn ''unknown_tool'' (PDict [])
     = PDict [(''error'', PStr (''Function '' @ quoted ''unknown_tool'' @ '' not found''))]"
  using execute_function_not_found [of no_dyn "''unknown_tool''" "PDict []"]
        unknown_tool_unregistered
  by simp

text \<open>
  Every field that the catalogue declares required is a parameter without default of
  the registered function, except \<open>level\<close> of \<open>get_exercise_recommendations\<close>.
\<close>

lemma TOOLS_required_check:
  "list_all (\<lambda>(name, flds).
      list_all (\<lambda>fld. (name, fld) = (''get_exercise_recommendations'', ''level'')
                  \<or> (case map_of (FUNCTION_MAP dyn) name of
                        Some f \<Rightarrow> fld \<in> set (required f)
                      | None \<Rightarrow> False))
        flds) TOOLS_required"
  by (simp add: TOOLS_required_def FUNCTION_MAP_def py_function_def required_def)

lemma TOOLS_required_params:
  assumes "map_of TOOLS_required name = Some required_fields" and "fld \<in> set required_fields"
    and "(name, fld) \<noteq> (''get_exercise_recommendations'', ''level'')"
  shows "\<exists>f. map_of (FUNCTION_MAP dyn) name = Some f \<and> fld \<in> set (required f)"
proof -
  from assms(1) have "(name, required_fields) \<in> set TOOLS_required"
    by (rule map_of_SomeD)
  with TOOLS_required_check[of dyn] assms(2,3) show ?thesis
    by (fastforce simp: list_all_iff split: option.splits)
qed

lemma missing_level_result:
  "execute_function no_dyn ''get_exercise_recommendations''
     (PDict [(''muscle_group'', PStr ''chest''), (''equipment'', PList [PStr ''all''])])
   = PDict [(''muscle_group'', PStr ''chest''),
            (''level'', PStr ''intermediate''),
            (''exercises'', PList
               [PDict [(''name'', PStr ''Barbell Bench Press''), (''equipment'', PStr ''barbell''),
                       (''sets'', PStr ''4''), (''reps'', PStr ''8-10'')],
                PDict [(''name'', PStr ''Incline Dumbbell Press''), (''equipment'', PStr ''dumbbells''),
                       (''sets'', PStr ''3''), (''reps'', PStr ''8-12'')],
                PDict [(''name'', PStr ''Cable Flyes''), (''equipment'', PStr ''cables''),
                       (''sets'', PStr ''3''), (''reps'', PStr ''12-15'')],
                PDict [(''name'', PStr ''Dips''), (''equipment'', PStr ''bodyweight''),
                       (''sets'', PStr ''3''), (''reps'', PStr ''8-12'')]]),
            (''equipment_available'', PList [PStr ''all''])]"
  by code_simp

text \<open>
  C5, as stated, fails: \<open>get_exercise_recommendations\<close> declares \<open>level\<close> required in the
  catalogue, but its implementation defaults it to \<open>intermediate\<close>; without \<open>level\<close> the
  dispatcher returns the recommendations, not an error.
\<close>

theorem execute_function_missing_level_counterexample:
  "map_of TOOLS_required ''get_exercise_recommendations''
     = Some [''muscle_group'', ''equipment'', ''level'']
   \<and> map_of [(''muscle_group'', PStr ''chest''), (''equipment'', PList [PStr ''all''])] ''level''
     = None
   \<and> execute_function no_dyn ''get_exercise_recommendations''
       (PDict [(''muscle_group'', PStr ''chest''), (''equipment'', PList [PStr ''all''])])
     = PDict [(''muscle_group'', PStr ''chest''),
            (''level'', PStr ''intermediate''),
            (''exercises'', PList
               [PDict [(''name'', PStr ''Barbell Bench Press''), (''equipment'', PStr ''barbell''),
                       (''sets'', PStr ''4''), (''reps'', PStr ''8-10'')],
                PDict [(''name'', PStr ''Incline Dumbbell Press''), (''equipment'', PStr ''dumbbells''),
                       (''sets'', PStr ''3''), (''reps'', PStr ''8-12'')],
                PDict [(''name'', PStr ''Cable Flyes''), (''equipment'', PStr ''cables''),
                       (''sets'', PStr ''3''), (''reps'', PStr ''12-15'')],
                PDict [(''name'', PStr ''Dips''), (''equipment'', PStr ''bodyweight''),
                       (''sets'', PStr ''3''), (''reps'', PStr ''8-12'')]]),
            (''equipment_available'', PList [PStr ''all''])]"
  using missing_level_result by (simp add: TOOLS_required_def)

text \<open>
  C5, amended: for every registered tool and every argument mapping that misses a
  required field of that tool, other than \<open>level\<close> of \<open>get_exercise_recommendations\<close>, the
  dispatcher returns the error dictionary whose text is \<open>Function execution failed:\<close>
  followed by the tool name and the interpreter's cause; it does not raise.
\<close>

theorem execute_function_missing_required:
  assumes "map_of TOOLS_required name = Some required_fields"
    and "fld \<in> set required_fields"
    and "map_of kw fld = None"
    and "(name, fld) \<noteq> (''get_exercise_recommendations'', ''level'')"
  shows "\<exists>cause. execute_function dyn name (PDict kw)
           = PDict [(''error'', PStr (''Function execution failed: '' @ name @ ''()'' @ cause))]"
proof -
  from TOOLS_required_params[OF assms(1,2,4)] obtain f
    where "map_of (FUNCTION_MAP dyn) name = Some f" and "fld \<in> set (required f)"
    by blast
  from execute_function_registered[OF this assms(3)] show ?thesis
    by (simp add: error_dict_def)
qed

lemma bmi_schema: "map_of TOOLS_required ''calculate_bmi'' = Some [''weight_kg'', ''height_cm'']"
  by (simp add: TOOLS_required_def)

lemma bmi_missing_height:
  "execute_function no_dyn ''calculate_bmi'' (PDict [(''weight_kg'', PNum (PyInt 80))])
   = PDict [(''error'', PStr (''Function execution failed: calculate_bmi() missing 1 required positional argument: '' @ quoted ''height_cm''))]"
  by code_simp

theorem execute_function_missing_required_witness:
  "map_of TOOLS_required ''calculate_bmi'' = Some [''weight_kg'', ''height_cm'']
   \<and> ''height_cm'' \<in> set [''weight_kg'', ''height_cm'']
   \<and> map_of [(''weight_kg'', PNum (PyInt 80))] ''height_cm'' = None
   \<and> (''calculate_bmi'', ''height_cm'') \<noteq> (''get_exercise_recommendations'', ''level'')
   \<and> (\<exists>cause. execute_function no_dyn ''calculate_bmi'' (PDict [(''weight_kg'', PNum (PyInt 80))])
           = PDict [(''error'', PStr (''Function execution failed: '' @ ''calculate_bmi''
                                      @ ''()'' @ cause))])
   \<and> execute_function no_dyn ''calculate_bmi'' (PDict [(''weight_kg'', PNum (PyInt 80))])
       = PDict [(''error'', PStr (''Function execution failed: calculate_bmi() missing 1 required positional argument: '' @ quoted ''height_cm''))]"
proof -
  have h1: "map_of TOOLS_required ''calculate_bmi'' = Some [''weight_kg'', ''height_cm'']"
    by (rule bmi_schema)
  have h2: "''height_cm'' \<in> set [''weight_kg'', ''height_cm'']" by simp
  have h3: "map_of [(''weight_kg'', PNum (PyInt 80))] ''height_cm'' = None" by simp
  have h4: "(''calculate_bmi'', ''height_cm'') \<noteq> (''get_exercise_recommendations'', ''level'')"
    by simp
  from execute_function_missing_required [OF h1 h2 h3 h4, of no_dyn] h1 h2 h3 h4
    bmi_missing_height
  show ?thesis by blast
qed

text \<open>The sentinel of \<open>calculate_body_fat_navy\<close> and its way through the dispatcher.\<close>

lemma navy_registered:
  "map_of (FUNCTION_MAP dyn) ''calculate_body_fat_navy''
     = Some \<lparr>func_name = ''calculate_body_fat_navy'',
             params = [(''gender'', None), (''waist_cm'', None), (''neck_cm'', None),
                       (''height_cm'', None), (''hip_cm'', Some PNone)],
             body = calculate_body_fat_navy_body dyn\<rparr>"
  by (simp add: FUNCTION_MAP_def py_function_def)

lemma navy_sentinel:
  "lower gender \<noteq> ''male'' \<Longrightarrow>
   calculate_body_fat_navy gender waist_cm neck_cm height_cm None
     = Inr (PDict [(''error'', PStr ''Hip measurement required for females'')])"
  by (simp add: calculate_body_fat_navy_def)

lemma navy_dispatch_no_hip:
  "execute_function dyn ''calculate_body_fat_navy''
     (PDict [(''gender'', PStr gender), (''waist_cm'', PNum waist_cm),
             (''neck_cm'', PNum neck_cm), (''height_cm'', PNum height_cm)])
   = (case calculate_body_fat_navy gender waist_cm neck_cm height_cm None of
        Inr v \<Rightarrow> v
      | Inl e \<Rightarrow> error_dict (''Function execution failed: '' @ str_exn e))"
  by (simp add: execute_function_def navy_registered call_kwargs_def required_def
                bind_params_def calculate_body_fat_navy_body_def)

lemma navy_dispatch_null_hip:
  "execute_function dyn ''calculate_body_fat_navy''
     (PDict [(''gender'', PStr gender), (''waist_cm'', PNum waist_cm),
             (''neck_cm'', PNum neck_cm), (''height_cm'', PNum height_cm),
             (''hip_cm'', PNone)])
   = (case calculate_body_fat_navy gender waist_cm neck_cm height_cm None of
        Inr v \<Rightarrow> v
      | Inl e \<Rightarrow> error_dict (''Function execution failed: '' @ str_exn e))"
  by (simp add: execute_function_def navy_registered call_kwargs_def required_def
                bind_params_def calculate_body_fat_navy_body_def)

lemma lower_female: "lower ''female'' \<noteq> ''male''"
  by code_simp

text \<open>
  C2, as stated, fails: the sentinel that \<open>calculate_body_fat_navy\<close> returns for a female
  without hip measurement leaves the dispatcher as it is, without the text
  \<open>Function execution failed:\<close> of the dispatcher's own failures.
\<close>

theorem execute_function_sentinel_counterexample:
  "execute_function no_dyn ''calculate_body_fat_navy''
     (PDict [(''gender'', PStr ''female''), (''waist_cm'', PNum (PyInt 80)),
             (''neck_cm'', PNum (PyInt 35)), (''height_cm'', PNum (PyInt 165))])
   = PDict [(''error'', PStr ''Hip measurement required for females'')]
   \<and> take (length ''Function execution failed: '') ''Hip measurement required for females''
       \<noteq> ''Function execution failed: ''"
  using navy_dispatch_no_hip [of no_dyn "''female''" "PyInt 80" "PyInt 35" "PyInt 165"]
        navy_sentinel [OF lower_female, of "PyInt 80" "PyInt 35" "PyInt 165"]
  by simp

text \<open>
  C2, amended: the sentinel error value that \<open>calculate_body_fat_navy\<close> returns when the
  gender is not male and \<open>hip_cm\<close> is absent (or null) is returned by the dispatcher
  unchanged, as the result of the call: the dictionary with the single key \<open>error\<close> and
  the calculator's own text.
\<close>

theorem execute_function_sentinel_unchanged:
  "lower gender \<noteq> ''male'' \<Longrightarrow>
   calculate_body_fat_navy gender waist_cm neck_cm height_cm None
     = Inr (PDict [(''error'', PStr ''Hip measurement required for females'')])
   \<and> execute_function dyn ''calculate_body_fat_navy''
       (PDict [(''gender'', PStr gender), (''waist_cm'', PNum waist_cm),
               (''neck_cm'', PNum neck_cm), (''height_cm'', PNum height_cm)])
     = PDict [(''error'', PStr ''Hip measurement required for females'')]
   \<and> execute_function dyn ''calculate_body_fat_navy''
       (PDict [(''gender'', PStr gender), (''waist_cm'', PNum waist_cm),
               (''neck_cm'', PNum neck_cm), (''height_cm'', PNum height_cm),
               (''hip_cm'', PNone)])
     = PDict [(''error'', PStr ''Hip measurement required for females'')]"
  using navy_sentinel [of gender waist_cm neck_cm height_cm]
  by (simp add: navy_dispatch_no_hip navy_dispatch_null_hip)

theorem execute_function_sentinel_unchanged_witness:
  "lower ''Female'' \<noteq> ''male''
   \<and> execute_function no_dyn ''calculate_body_fat_navy''
       (PDict [(''gender'', PStr ''Female''), (''waist_cm'', PNum (PyInt 80)),
               (''neck_cm'', PNum (PyFloat 35)), (''height_cm'', PNum (PyInt 165))])
     = PDict [(''error'', PStr ''Hip measurement required for females'')]"
proof -
  have h: "lower ''Female'' \<noteq> ''male''" by code_simp
  from execute_function_sentinel_unchanged [OF h, of "PyInt 80" "PyFloat 35" "PyInt 165" no_dyn] h
  show ?thesis by simp
qed

section \<open>Properties of the chat application\<close>

lemma list_append_heap [simp]:
  "heap (list_append r m w) = (heap w)(r := heap w r @ [m])"
  and list_append_session [simp]: "user_session (list_append r m w) = user_session w"
  and list_append_ui [simp]: "ui (list_append r m w) = ui w"
  by (simp_all add: list_append_def)

lemma session_set_heap [simp]: "heap (session_set k r w) = heap w"
  and session_set_session [simp]:
    "user_session (session_set k r w) = (user_session w)(k \<mapsto> r)"
  and session_set_ui [simp]: "ui (session_set k r w) = ui w"
  by (simp_all add: session_set_def)

text \<open>The tool loop with every argument text decoded: one tool message per call, in order.\<close>

lemma run_tools_all_decoded:
  "map (\<lambda>tc. json_loads ev (tc_arguments tc)) tcs = map Inr argss \<Longrightarrow>
   \<exists>w'. run_tools ev r tcs w msg
           = (None, w', msg @ concat (map (\<lambda>tc. tool_banner (tc_name tc)) tcs))
        \<and> heap w' r = heap w r @ map2 (tool_message ev) tcs argss
        \<and> user_session w' = user_session w \<and> ui w' = ui w"
proof (induction tcs arbitrary: w msg argss)
  case Nil
  then show ?case by simp
next
  case (Cons tc tcs)
  from Cons.prems obtain a rest where argss: "argss = a # rest"
    and a: "json_loads ev (tc_arguments tc) = Inr a"
    and rest: "map (\<lambda>tc. json_loads ev (tc_arguments tc)) tcs = map Inr rest"
    by (cases argss) auto
  from Cons.IH[OF rest, of "list_append r (tool_message ev tc a) w"
                 "msg @ tool_banner (tc_name tc)"]
  show ?case by (auto simp: a argss)
qed

text \<open>The tool loop in general: it only appends tool messages to the list.\<close>

lemma run_tools_appends:
  "\<exists>added. heap (fst (snd (run_tools ev r tcs w msg))) r = heap w r @ added
        \<and> (\<forall>m \<in> set added. \<not> is_system m)
        \<and> user_session (fst (snd (run_tools ev r tcs w msg))) = user_session w"
proof (induction tcs arbitrary: w msg)
  case Nil
  show ?case by simp
next
  case (Cons tc tcs)
  show ?case
  proof (cases "json_loads ev (tc_arguments tc)")
    case (Inl e)
    then show ?thesis by simp
  next
    case (Inr a)
    from Cons.IH[of "list_append r (tool_message ev tc a) w"
                    "msg @ tool_banner (tc_name tc)"]
    obtain added where
      "heap (fst (snd (run_tools ev r tcs (list_append r (tool_message ev tc a) w)
                         (msg @ tool_banner (tc_name tc))))) r
         = (heap w r @ [tool_message ev tc a]) @ added"
      and "\<forall>m \<in> set added. \<not> is_system m"
      and "user_session (fst (snd (run_tools ev r tcs (list_append r (tool_message ev tc a) w)
                         (msg @ tool_banner (tc_name tc))))) = user_session w"
      by auto
    then show ?thesis
      by (intro exI[of _ "tool_message ev tc a # added"]) (simp add: Inr tool_message_def)
  qed
qed


lemma tool_call_ids:
  "length argss = length tcs \<Longrightarrow>
   map tool_call_id (map2 (tool_message ev) tcs argss) = map (\<lambda>tc. Some (tc_id tc)) tcs"
  by (induction tcs argss rule: list_induct2') (simp_all add: tool_message_def)

text \<open>
  C3: in a completed turn in which the model issues the tool calls \<open>tcs\<close> (at least one),
  the handler appends to the conversation state, in order: the user message, the
  assistant's reply carrying the tool calls, one tool message per tool call, in the
  order of the calls and with the call's id, and the final assistant message.
\<close>

theorem main_tool_turn:
  assumes "user_session w ''messages'' = Some r"
    and "create ev (heap w r @ [UserMessage user_text]) = Inr reply"
    and "rm_tool_calls reply = tcs" and "tcs \<noteq> []"
    and "map (\<lambda>tc. json_loads ev (tc_arguments tc)) tcs = map Inr argss"
    and "create_stream ev (heap w r @ [UserMessage user_text, ResponseMessage reply]
                             @ map2 (tool_message ev) tcs argss) = Inr (chunks, None)"
  shows "\<exists>w'. main ev user_text w = Inr w'
           \<and> ConversationState w'
               = Some (heap w r @ [UserMessage user_text, ResponseMessage reply]
                       @ map2 (tool_message ev) tcs argss
                       @ [AssistantMessage (Some (stream_chunks
                            (concat (map (\<lambda>tc. tool_banner (tc_name tc)) tcs)) chunks))])
           \<and> length (map2 (tool_message ev) tcs argss) = length tcs
           \<and> map tool_call_id (map2 (tool_message ev) tcs argss)
               = map (\<lambda>tc. Some (tc_id tc)) tcs"
proof -
  let ?w1 = "list_append r (ResponseMessage reply) (list_append r (UserMessage user_text) w)"
  let ?banners = "concat (map (\<lambda>tc. tool_banner (tc_name tc)) tcs)"
  let ?final = "stream_chunks ?banners chunks"
  from assms(5) have len: "length argss = length tcs"
    by (metis length_map)
  from run_tools_all_decoded[OF assms(5), of r ?w1 "[]"] obtain w2 where
    rt: "run_tools ev r tcs ?w1 [] = (None, w2, ?banners)"
    and h2: "heap w2 r = heap ?w1 r @ map2 (tool_message ev) tcs argss"
    and s2: "user_session w2 = user_session ?w1"
    by auto
  have h2': "heap w2 r = heap w r @ [UserMessage user_text, ResponseMessage reply]
                          @ map2 (tool_message ev) tcs argss"
    using h2 by simp
  define w3 where
    "w3 = session_set ''messages'' r (list_append r (AssistantMessage (Some ?final)) w2)"
  have tb: "try_block ev r (list_append r (UserMessage user_text) w) = (None, w3, ?final)"
    using assms(2-4) assms(6) rt h2'
    by (simp add: try_block_def Let_def w3_def)
  have m: "main ev user_text w = Inr (w3\<lparr>ui := ui w3 @ [Reply ?final]\<rparr>)"
    using assms(1) tb by (simp add: main_def)
  have cs: "ConversationState (w3\<lparr>ui := ui w3 @ [Reply ?final]\<rparr>)
              = Some (heap w r @ [UserMessage user_text, ResponseMessage reply]
                      @ map2 (tool_message ev) tcs argss @ [AssistantMessage (Some ?final)])"
    using h2' by (simp add: ConversationState_def w3_def)
  have n: "length (map2 (tool_message ev) tcs argss) = length tcs"
    using len by simp
  from m cs n tool_call_ids[OF len, of ev] show ?thesis
    by blast
qed

lemma example_create:
  "create (example_env None f2) ms = Inr example_reply"
  by (simp add: example_env_def)

lemma example_loads:
  "map (\<lambda>tc. json_loads (example_env f1 f2) (tc_arguments tc)) example_calls
     = map Inr [PDict [], PDict []]"
  by (simp add: example_env_def example_calls_def)

lemma example_stream:
  "create_stream (example_env f1 f2) ms = Inr ([Some ''Your BMI'', None, Some '' is 24.7''], f2)"
  by (simp add: example_env_def)

lemma start_empty_session: "user_session (start empty_world) ''messages'' = Some 0"
  by (simp add: start_def empty_world_def Let_def)

lemma start_empty_heap: "heap (start empty_world) 0 = [SystemMessage SYSTEM_PROMPT]"
  by (simp add: start_def empty_world_def Let_def)

lemma example_turn_state:
  "heap (start empty_world) 0 @ [UserMessage ''hi'', ResponseMessage example_reply]
     @ map2 (tool_message (example_env f1 f2)) example_calls [PDict [], PDict []]
     @ [AssistantMessage (Some (stream_chunks
          (concat (map (\<lambda>tc. tool_banner (tc_name tc)) example_calls))
          [Some ''Your BMI'', None, Some '' is 24.7'']))]
   = [SystemMessage SYSTEM_PROMPT, UserMessage ''hi'', ResponseMessage example_reply,
      ToolMessage ''call_1'' ''calculate_bmi'' ''dict'',
      ToolMessage ''call_2'' ''calculate_tdee'' ''dict'',
      AssistantMessage (Some (tool_banner ''calculate_bmi''
        @ tool_banner ''calculate_tdee'' @ ''Your BMI is 24.7''))]"
  by (simp add: start_empty_heap tool_message_def example_env_def example_calls_def
                execute_function_def FUNCTION_MAP_def py_function_def call_kwargs_def
                required_def Let_def error_dict_def)

theorem main_tool_turn_witness:
  "user_session (start empty_world) ''messages'' = Some 0
   \<and> create (example_env None None) (heap (start empty_world) 0 @ [UserMessage ''hi''])
       = Inr example_reply
   \<and> rm_tool_calls example_reply = example_calls \<and> example_calls \<noteq> []
   \<and> state_after (main (example_env None None) ''hi'' (start empty_world))
       = Some [SystemMessage SYSTEM_PROMPT, UserMessage ''hi'', ResponseMessage example_reply,
               ToolMessage ''call_1'' ''calculate_bmi'' ''dict'',
               ToolMessage ''call_2'' ''calculate_tdee'' ''dict'',
               AssistantMessage (Some (tool_banner ''calculate_bmi''
                 @ tool_banner ''calculate_tdee'' @ ''Your BMI is 24.7''))]"
proof -
  have h3: "rm_tool_calls example_reply = example_calls"
    by (simp add: example_reply_def)
  have h4: "example_calls \<noteq> []"
    by (simp add: example_calls_def)
  from main_tool_turn [where w = "start empty_world" and r = 0 and user_text = "''hi''"
                         and ev = "example_env None None",
                       OF start_empty_session example_create h3 h4 example_loads example_stream]
  obtain w' where m: "main (example_env None None) ''hi'' (start empty_world) = Inr w'"
    and cs: "ConversationState w'
      = Some (heap (start empty_world) 0 @ [UserMessage ''hi'', ResponseMessage example_reply]
          @ map2 (tool_message (example_env None None)) example_calls [PDict [], PDict []]
          @ [AssistantMessage (Some (stream_chunks
               (concat (map (\<lambda>tc. tool_banner (tc_name tc)) example_calls))
               [Some ''Your BMI'', None, Some '' is 24.7'']))])"
    by blast
  from cs have cs': "ConversationState w'
      = Some [SystemMessage SYSTEM_PROMPT, UserMessage ''hi'', ResponseMessage example_reply,
               ToolMessage ''call_1'' ''calculate_bmi'' ''dict'',
               ToolMessage ''call_2'' ''calculate_tdee'' ''dict'',
               AssistantMessage (Some (tool_banner ''calculate_bmi''
                 @ tool_banner ''calculate_tdee'' @ ''Your BMI is 24.7''))]"
    by (simp only: example_turn_state)
  have "state_after (main (example_env None None) ''hi'' (start empty_world))
       = Some [SystemMessage SYSTEM_PROMPT, UserMessage ''hi'', ResponseMessage example_reply,
               ToolMessage ''call_1'' ''calculate_bmi'' ''dict'',
               ToolMessage ''call_2'' ''calculate_tdee'' ''dict'',
               AssistantMessage (Some (tool_banner ''calculate_bmi''
                 @ tool_banner ''calculate_tdee'' @ ''Your BMI is 24.7''))]"
    by (simp add: m state_after_def cs')
  with start_empty_session example_create [of None] h3 h4 show ?thesis
    by blast
qed


lemma failing_create:
  "create (example_env (Some e) f2) ms = Inl e"
  by (simp add: example_env_def)

lemma failing_turn_state:
  "state_after (main (example_env (Some e) f2) ''hi'' (start empty_world))
     = Some [SystemMessage SYSTEM_PROMPT, UserMessage ''hi'']"
  by (simp add: main_def try_block_def start_empty_session start_empty_heap failing_create
                state_after_def ConversationState_def)

lemma start_state: "ConversationState (start w) = Some [SystemMessage SYSTEM_PROMPT]"
  by (simp add: start_def ConversationState_def session_set_def Let_def)

text \<open>
  C1, as stated, fails: when the first model call fails, the user message appended
  before the call stays in the session's message list.
\<close>

theorem main_failure_counterexample:
  "ConversationState (start empty_world) = Some [SystemMessage SYSTEM_PROMPT]
   \<and> create (example_env (Some (OtherError ''connection error'')) None)
        [SystemMessage SYSTEM_PROMPT, UserMessage ''hi'']
       = Inl (OtherError ''connection error'')
   \<and> state_after (main (example_env (Some (OtherError ''connection error'')) None) ''hi''
                    (start empty_world))
       = Some [SystemMessage SYSTEM_PROMPT, UserMessage ''hi'']
   \<and> state_after (main (example_env (Some (OtherError ''connection error'')) None) ''hi''
                    (start empty_world))
       \<noteq> ConversationState (start empty_world)"
  by (simp add: start_state failing_create failing_turn_state)

text \<open>
  C1, amended: when a model call fails, the turn ends with the reply message and one
  error message shown to the user, and the messages appended before the failure stay in
  the conversation state: the user message when the first call fails; the user message,
  the assistant's reply with its tool calls and the tool messages when the second call
  fails, at the request or in mid-stream. No final assistant message is appended.
\<close>

theorem main_model_call_failed:
  assumes "user_session w ''messages'' = Some r"
  shows "(create ev (heap w r @ [UserMessage user_text]) = Inl e \<longrightarrow>
            (\<exists>w'. main ev user_text w = Inr w'
               \<and> ConversationState w' = Some (heap w r @ [UserMessage user_text])
               \<and> ui w' = ui w @ [Reply [], ErrorMessage (error_text e)]))
       \<and> (create ev (heap w r @ [UserMessage user_text]) = Inr reply
            \<and> rm_tool_calls reply \<noteq> []
            \<and> map (\<lambda>tc. json_loads ev (tc_arguments tc)) (rm_tool_calls reply) = map Inr argss
            \<and> (create_stream ev (heap w r @ [UserMessage user_text, ResponseMessage reply]
                    @ map2 (tool_message ev) (rm_tool_calls reply) argss) = Inl e
               \<or> create_stream ev (heap w r @ [UserMessage user_text, ResponseMessage reply]
                    @ map2 (tool_message ev) (rm_tool_calls reply) argss)
                  = Inr (chunks, Some e)) \<longrightarrow>
            (\<exists>w' msg. main ev user_text w = Inr w'
               \<and> ConversationState w'
                   = Some (heap w r @ [UserMessage user_text, ResponseMessage reply]
                           @ map2 (tool_message ev) (rm_tool_calls reply) argss)
               \<and> ui w' = ui w @ [Reply msg, ErrorMessage (error_text e)]))"
proof (intro conjI impI)
  assume "create ev (heap w r @ [UserMessage user_text]) = Inl e"
  with assms show "\<exists>w'. main ev user_text w = Inr w'
               \<and> ConversationState w' = Some (heap w r @ [UserMessage user_text])
               \<and> ui w' = ui w @ [Reply [], ErrorMessage (error_text e)]"
    by (simp add: main_def try_block_def ConversationState_def)
next
  let ?w1 = "list_append r (ResponseMessage reply) (list_append r (UserMessage user_text) w)"
  let ?tcs = "rm_tool_calls reply"
  let ?banners = "concat (map (\<lambda>tc. tool_banner (tc_name tc)) ?tcs)"
  let ?sent = "heap w r @ [UserMessage user_text, ResponseMessage reply]
                 @ map2 (tool_message ev) ?tcs argss"
  assume a: "create ev (heap w r @ [UserMessage user_text]) = Inr reply
            \<and> rm_tool_calls reply \<noteq> []
            \<and> map (\<lambda>tc. json_loads ev (tc_arguments tc)) (rm_tool_calls reply) = map Inr argss
            \<and> (create_stream ev ?sent = Inl e \<or> create_stream ev ?sent = Inr (chunks, Some e))"
  then have dec: "map (\<lambda>tc. json_loads ev (tc_arguments tc)) ?tcs = map Inr argss"
    by simp
  from run_tools_all_decoded[OF dec, of r ?w1 "[]"] obtain w2 where
    rt: "run_tools ev r ?tcs ?w1 [] = (None, w2, ?banners)"
    and h2: "heap w2 r = heap ?w1 r @ map2 (tool_message ev) ?tcs argss"
    and s2: "user_session w2 = user_session ?w1"
    and u2: "ui w2 = ui ?w1"
    by auto
  have h2': "heap w2 r = ?sent"
    using h2 by simp
  from a consider (request) "create_stream ev ?sent = Inl e"
    | (stream) "create_stream ev ?sent = Inr (chunks, Some e)"
    by blast
  then show "\<exists>w' msg. main ev user_text w = Inr w'
               \<and> ConversationState w' = Some ?sent
               \<and> ui w' = ui w @ [Reply msg, ErrorMessage (error_text e)]"
  proof cases
    case request
    with a rt h2' have tb: "try_block ev r (list_append r (UserMessage user_text) w)
                              = (Some e, w2, ?banners)"
      by (simp add: try_block_def)
    have "main ev user_text w
            = Inr (w2\<lparr>ui := ui w2 @ [Reply ?banners, ErrorMessage (error_text e)]\<rparr>)"
      using assms tb by (simp add: main_def)
    moreover have "ConversationState
            (w2\<lparr>ui := ui w2 @ [Reply ?banners, ErrorMessage (error_text e)]\<rparr>) = Some ?sent"
      using assms s2 h2' by (simp add: ConversationState_def)
    moreover have "ui (w2\<lparr>ui := ui w2 @ [Reply ?banners, ErrorMessage (error_text e)]\<rparr>)
            = ui w @ [Reply ?banners, ErrorMessage (error_text e)]"
      using u2 by simp
    ultimately show ?thesis by blast
  next
    case stream
    let ?msg = "stream_chunks ?banners chunks"
    from stream a rt h2' have tb: "try_block ev r (list_append r (UserMessage user_text) w)
                              = (Some e, w2, ?msg)"
      by (simp add: try_block_def Let_def)
    have "main ev user_text w
            = Inr (w2\<lparr>ui := ui w2 @ [Reply ?msg, ErrorMessage (error_text e)]\<rparr>)"
      using assms tb by (simp add: main_def)
    moreover have "ConversationState
            (w2\<lparr>ui := ui w2 @ [Reply ?msg, ErrorMessage (error_text e)]\<rparr>) = Some ?sent"
      using assms s2 h2' by (simp add: ConversationState_def)
    moreover have "ui (w2\<lparr>ui := ui w2 @ [Reply ?msg, ErrorMessage (error_text e)]\<rparr>)
            = ui w @ [Reply ?msg, ErrorMessage (error_text e)]"
      using u2 by simp
    ultimately show ?thesis by blast
  qed
qed


lemma example_sent:
  "heap (start empty_world) 0 @ [UserMessage ''hi'', ResponseMessage example_reply]
     @ map2 (tool_message (example_env f1 f2)) (rm_tool_calls example_reply) [PDict [], PDict []]
   = [SystemMessage SYSTEM_PROMPT, UserMessage ''hi'', ResponseMessage example_reply,
      ToolMessage ''call_1'' ''calculate_bmi'' ''dict'',
      ToolMessage ''call_2'' ''calculate_tdee'' ''dict'']"
  by (simp add: start_empty_heap tool_message_def example_env_def example_calls_def
                example_reply_def execute_function_def FUNCTION_MAP_def py_function_def
                call_kwargs_def required_def Let_def error_dict_def)

lemma example_reply_calls:
  "rm_tool_calls example_reply \<noteq> []"
  "map (\<lambda>tc. json_loads (example_env f1 f2) (tc_arguments tc)) (rm_tool_calls example_reply)
     = map Inr [PDict [], PDict []]"
  by (simp_all add: example_reply_def example_calls_def example_env_def)

theorem main_model_call_failed_witness:
  "user_session (start empty_world) ''messages'' = Some 0
   \<and> create (example_env (Some (OtherError ''connection error'')) None)
        (heap (start empty_world) 0 @ [UserMessage ''hi''])
       = Inl (OtherError ''connection error'')
   \<and> state_after (main (example_env (Some (OtherError ''connection error'')) None) ''hi''
                    (start empty_world))
       = Some [SystemMessage SYSTEM_PROMPT, UserMessage ''hi'']
   \<and> create (example_env None (Some (OtherError ''connection error'')))
        (heap (start empty_world) 0 @ [UserMessage ''hi''])
       = Inr example_reply
   \<and> rm_tool_calls example_reply \<noteq> []
   \<and> create_stream (example_env None (Some (OtherError ''connection error'')))
        [SystemMessage SYSTEM_PROMPT, UserMessage ''hi'', ResponseMessage example_reply,
         ToolMessage ''call_1'' ''calculate_bmi'' ''dict'',
         ToolMessage ''call_2'' ''calculate_tdee'' ''dict'']
       = Inr ([Some ''Your BMI'', None, Some '' is 24.7''], Some (OtherError ''connection error''))
   \<and> state_after (main (example_env None (Some (OtherError ''connection error''))) ''hi''
                    (start empty_world))
       = Some [SystemMessage SYSTEM_PROMPT, UserMessage ''hi'', ResponseMessage example_reply,
               ToolMessage ''call_1'' ''calculate_bmi'' ''dict'',
               ToolMessage ''call_2'' ''calculate_tdee'' ''dict'']"
proof -
  let ?e = "OtherError ''connection error''"
  let ?ev1 = "example_env (Some ?e) None"
  let ?ev2 = "example_env None (Some ?e)"
  have c1: "create ?ev1 (heap (start empty_world) 0 @ [UserMessage ''hi'']) = Inl ?e"
    by (rule failing_create)
  from main_model_call_failed [OF start_empty_session, where ev = ?ev1 and e = ?e
                                 and user_text = "''hi''"] c1
  obtain w1 where m1: "main ?ev1 ''hi'' (start empty_world) = Inr w1"
    and s1: "ConversationState w1 = Some (heap (start empty_world) 0 @ [UserMessage ''hi''])"
    by blast
  have r1: "state_after (main ?ev1 ''hi'' (start empty_world))
              = Some [SystemMessage SYSTEM_PROMPT, UserMessage ''hi'']"
    by (simp add: m1 state_after_def s1 start_empty_heap)
  have c2: "create ?ev2 (heap (start empty_world) 0 @ [UserMessage ''hi'']) = Inr example_reply"
    by (rule example_create)
  have st: "create_stream ?ev2
        (heap (start empty_world) 0 @ [UserMessage ''hi'', ResponseMessage example_reply]
           @ map2 (tool_message ?ev2) (rm_tool_calls example_reply) [PDict [], PDict []])
       = Inr ([Some ''Your BMI'', None, Some '' is 24.7''], Some ?e)"
    by (rule example_stream)
  from main_model_call_failed [OF start_empty_session, where ev = ?ev2 and e = ?e
                                 and user_text = "''hi''" and reply = example_reply
                                 and argss = "[PDict [], PDict []]"
                                 and chunks = "[Some ''Your BMI'', None, Some '' is 24.7'']"]
       c2 example_reply_calls st
  obtain w2 where m2: "main ?ev2 ''hi'' (start empty_world) = Inr w2"
    and s2: "ConversationState w2
      = Some (heap (start empty_world) 0 @ [UserMessage ''hi'', ResponseMessage example_reply]
           @ map2 (tool_message ?ev2) (rm_tool_calls example_reply) [PDict [], PDict []])"
    by blast
  from s2 have s2': "ConversationState w2
      = Some [SystemMessage SYSTEM_PROMPT, UserMessage ''hi'', ResponseMessage example_reply,
              ToolMessage ''call_1'' ''calculate_bmi'' ''dict'',
              ToolMessage ''call_2'' ''calculate_tdee'' ''dict'']"
    by (simp only: example_sent)
  have r2: "state_after (main ?ev2 ''hi'' (start empty_world))
              = Some [SystemMessage SYSTEM_PROMPT, UserMessage ''hi'', ResponseMessage example_reply,
                      ToolMessage ''call_1'' ''calculate_bmi'' ''dict'',
                      ToolMessage ''call_2'' ''calculate_tdee'' ''dict'']"
    by (simp add: m2 state_after_def s2')
  from st have st': "create_stream ?ev2
        [SystemMessage SYSTEM_PROMPT, UserMessage ''hi'', ResponseMessage example_reply,
         ToolMessage ''call_1'' ''calculate_bmi'' ''dict'',
         ToolMessage ''call_2'' ''calculate_tdee'' ''dict'']
       = Inr ([Some ''Your BMI'', None, Some '' is 24.7''], Some ?e)"
    by (simp only: example_sent)
  from start_empty_session c1 r1 c2 example_reply_calls(1) st' r2 show ?thesis
    by blast
qed

text \<open>The handler only appends, and never a system message.\<close>

lemma system_first_append:
  "system_first ms \<Longrightarrow> \<not> is_system m \<Longrightarrow> system_first (ms @ [m])"
  by (cases ms) (simp_all add: system_first_def)

lemma run_tools_system_first:
  "system_first (heap w r) \<Longrightarrow>
   system_first (heap (fst (snd (run_tools ev r tcs w msg))) r)
   \<and> user_session (fst (snd (run_tools ev r tcs w msg))) = user_session w"
proof (induction tcs arbitrary: w msg)
  case Nil
  then show ?case by simp
next
  case (Cons tc tcs)
  show ?case
  proof (cases "json_loads ev (tc_arguments tc)")
    case (Inl e)
    with Cons.prems show ?thesis by simp
  next
    case (Inr a)
    have "system_first (heap (list_append r (tool_message ev tc a) w) r)"
      using Cons.prems by (simp add: system_first_append tool_message_def)
    from Cons.IH[OF this, of "msg @ tool_banner (tc_name tc)"] show ?thesis
      by (simp add: Inr)
  qed
qed

lemma try_block_system_first:
  assumes "system_first (heap w r)" and "user_session w ''messages'' = Some r"
  shows "system_first (heap (fst (snd (try_block ev r w))) r)
       \<and> user_session (fst (snd (try_block ev r w))) ''messages'' = Some r"
proof (cases "create ev (heap w r)")
  case (Inl e)
  with assms show ?thesis by (simp add: try_block_def)
next
  case (Inr reply)
  show ?thesis
  proof (cases "rm_tool_calls reply = []")
    case True
    with assms Inr show ?thesis
      by (simp add: try_block_def system_first_append)
  next
    case False
    let ?w1 = "list_append r (ResponseMessage reply) w"
    have sf1: "system_first (heap ?w1 r)"
      using assms(1) by (simp add: system_first_append)
    obtain err w2 msg where rt: "run_tools ev r (rm_tool_calls reply) ?w1 [] = (err, w2, msg)"
      by (metis prod_cases3)
    from run_tools_system_first[OF sf1, of ev "rm_tool_calls reply" "[]"] rt
    have sf2: "system_first (heap w2 r)" and us2: "user_session w2 = user_session w"
      by simp_all
    from Inr False rt sf2 us2 assms(2) show ?thesis
      by (auto simp: try_block_def Let_def system_first_append
               split: option.splits sum.splits prod.splits)
  qed
qed

lemma main_system_first:
  assumes "user_session w ''messages'' = Some r" and "system_first (heap w r)"
  shows "\<exists>w'. main ev user_text w = Inr w' \<and> user_session w' ''messages'' = Some r
            \<and> system_first (heap w' r)"
proof -
  let ?w0 = "list_append r (UserMessage user_text) w"
  have sf0: "system_first (heap ?w0 r)"
    using assms(2) by (simp add: system_first_append)
  have us0: "user_session ?w0 ''messages'' = Some r"
    using assms(1) by simp
  obtain err w1 msg where tb: "try_block ev r ?w0 = (err, w1, msg)"
    by (metis prod_cases3)
  from try_block_system_first[OF sf0 us0, of ev] tb
  have "system_first (heap w1 r)" and "user_session w1 ''messages'' = Some r"
    by simp_all
  with assms(1) tb show ?thesis
    by (cases err) (simp_all add: main_def)
qed

lemma turns_system_first:
  "user_session w ''messages'' = Some r \<Longrightarrow> system_first (heap w r) \<Longrightarrow>
   \<exists>w'. turns ts w = Inr w' \<and> user_session w' ''messages'' = Some r
        \<and> system_first (heap w' r)"
proof (induction ts arbitrary: w)
  case Nil
  then show ?case by simp
next
  case (Cons p ts)
  obtain ev user_text where p: "p = (ev, user_text)"
    by (cases p)
  from main_system_first[OF Cons.prems, of ev user_text] obtain w1
    where m: "main ev user_text w = Inr w1"
      and us: "user_session w1 ''messages'' = Some r"
      and sf: "system_first (heap w1 r)"
    by blast
  from Cons.IH[OF us sf] show ?case
    by (simp add: p m)
qed

text \<open>
  C6: immediately after \<open>start\<close> the conversation state is the single system message
  with the fixed prompt; after any sequence of turns the state still begins with that
  message and holds no other system message.
\<close>

theorem system_prompt_first:
  "ConversationState (start w) = Some [SystemMessage SYSTEM_PROMPT]
   \<and> (\<exists>w' rest. turns ts (start w) = Inr w'
         \<and> ConversationState w' = Some (SystemMessage SYSTEM_PROMPT # rest)
         \<and> (\<forall>m \<in> set rest. \<not> is_system m))"
proof
  show "ConversationState (start w) = Some [SystemMessage SYSTEM_PROMPT]"
    by (rule start_state)
next
  have us: "user_session (start w) ''messages'' = Some (next_ref w)"
    by (simp add: start_def Let_def session_set_def)
  have sf: "system_first (heap (start w) (next_ref w))"
    by (simp add: start_def Let_def session_set_def system_first_def)
  from turns_system_first[OF us sf, of ts] obtain w'
    where t: "turns ts (start w) = Inr w'"
      and us': "user_session w' ''messages'' = Some (next_ref w)"
      and sf': "system_first (heap w' (next_ref w))"
    by blast
  from sf' obtain rest where "heap w' (next_ref w) = SystemMessage SYSTEM_PROMPT # rest"
    and "\<forall>m \<in> set rest. \<not> is_system m"
    by (cases "heap w' (next_ref w)") (auto simp: system_first_def list_all_iff)
  with t us' show "\<exists>w' rest. turns ts (start w) = Inr w'
         \<and> ConversationState w' = Some (SystemMessage SYSTEM_PROMPT # rest)
         \<and> (\<forall>m \<in> set rest. \<not> is_system m)"
    by (auto simp: ConversationState_def)
qed

lemma example_turns:
  "state_after (turns [(example_env None None, ''hi''),
                       (example_env (Some (OtherError ''connection error'')) None, ''again'')]
                  (start empty_world))
   = Some [SystemMessage SYSTEM_PROMPT, UserMessage ''hi'', ResponseMessage example_reply,
           ToolMessage ''call_1'' ''calculate_bmi'' ''dict'',
           ToolMessage ''call_2'' ''calculate_tdee'' ''dict'',
           AssistantMessage (Some (tool_banner ''calculate_bmi''
             @ tool_banner ''calculate_tdee'' @ ''Your BMI is 24.7'')),
           UserMessage ''again'']"
  by (simp add: main_def try_block_def start_def empty_world_def session_set_def
                list_append_def example_env_def example_reply_def example_calls_def
                tool_message_def execute_function_def FUNCTION_MAP_def py_function_def
                call_kwargs_def required_def Let_def error_dict_def state_after_def
                ConversationState_def)

theorem system_prompt_first_witness:
  "ConversationState (start empty_world) = Some [SystemMessage SYSTEM_PROMPT]
   \<and> state_after (turns [(example_env None None, ''hi''),
                       (example_env (Some (OtherError ''connection error'')) None, ''again'')]
                  (start empty_world))
   = Some [SystemMessage SYSTEM_PROMPT, UserMessage ''hi'', ResponseMessage example_reply,
           ToolMessage ''call_1'' ''calculate_bmi'' ''dict'',
           ToolMessage ''call_2'' ''calculate_tdee'' ''dict'',
           AssistantMessage (Some (tool_banner ''calculate_bmi''
             @ tool_banner ''calculate_tdee'' @ ''Your BMI is 24.7'')),
           UserMessage ''again'']
   \<and> list_all (\<lambda>m. \<not> is_system m) [UserMessage ''hi'', ResponseMessage example_reply,
           ToolMessage ''call_1'' ''calculate_bmi'' ''dict'',
           ToolMessage ''call_2'' ''calculate_tdee'' ''dict'',
           AssistantMessage (Some (tool_banner ''calculate_bmi''
             @ tool_banner ''calculate_tdee'' @ ''Your BMI is 24.7'')),
           UserMessage ''again'']"
  using system_prompt_first [of empty_world
          "[(example_env None None, ''hi''),
            (example_env (Some (OtherError ''connection error'')) None, ''again'')]"]
        example_turns
  by simp

end
